theory Spec2Isabelle
  imports Main "HOL-Library.Sublist"
begin

section \<open>Python values used by the moderation cog\<close>

text \<open>
  A \<open>string\<close> stands for a Python \<open>str\<close> whose code points are below 256, one
  \<open>char\<close> per code point. The emoji the cog puts in front of some messages lie
  outside that range; they are carried by the \<open>glyph\<close> tag of an \<open>mtext\<close>.
\<close>

datatype exn =
    Forbidden | NotFound | HTTPException
  | KeyError string | TypeError | ValueError | OverflowError | AttributeError
  | InteractionResponded | StoreError | TimeoutError

text \<open>\<open>discord.Forbidden\<close> and \<open>discord.NotFound\<close> are subclasses of
  \<open>discord.HTTPException\<close>: an \<open>except discord.HTTPException\<close> clause catches all three.\<close>

definition is_HTTPException :: "exn \<Rightarrow> bool" where
  "is_HTTPException e = (e = Forbidden \<or> e = NotFound \<or> e = HTTPException)"

subsection \<open>\<open>str.strip\<close>, \<open>str.replace\<close>, \<open>str.isdigit\<close>, \<open>int\<close>\<close>

definition py_isspace :: "char \<Rightarrow> bool" where
  "py_isspace c = (let n = (of_char c :: nat) in
     (9 \<le> n \<and> n \<le> 13) \<or> (28 \<le> n \<and> n \<le> 32) \<or> n = 133 \<or> n = 160)"

definition py_strip :: "string \<Rightarrow> string" where
  "py_strip s = rev (dropWhile py_isspace (rev (dropWhile py_isspace s)))"

text \<open>\<open>s.replace(old, new)\<close> for a non-empty \<open>old\<close>: the occurrences are found from
  the left and do not overlap; the result is not searched again.\<close>

function py_replace :: "string \<Rightarrow> string \<Rightarrow> string \<Rightarrow> string" where
  "py_replace old new [] = []"
| "py_replace old new (c # cs) =
     (if old \<noteq> [] \<and> prefix old (c # cs)
      then new @ py_replace old new (drop (length old) (c # cs))
      else c # py_replace old new cs)"
  by pat_completeness auto
termination
  by (relation "measure (\<lambda>(old, new, s). length s)") (auto simp: neq_Nil_conv)

definition ascii_digit :: "char \<Rightarrow> bool" where
  "ascii_digit c = (let n = (of_char c :: nat) in 48 \<le> n \<and> n \<le> 57)"

text \<open>Below 256 the characters with \<open>isdigit()\<close> true are the ten ASCII digits and the
  superscripts two, three and one (178, 179, 185).\<close>

definition isdigit_char :: "char \<Rightarrow> bool" where
  "isdigit_char c = (ascii_digit c \<or> (let n = (of_char c :: nat) in n = 178 \<or> n = 179 \<or> n = 185))"

definition py_isdigit :: "string \<Rightarrow> bool" where
  "py_isdigit s = (s \<noteq> [] \<and> list_all isdigit_char s)"

definition digit_val :: "char \<Rightarrow> int" where
  "digit_val c = int (of_char c) - 48"

text \<open>\<open>int(s)\<close> on a string that passed \<open>isdigit()\<close>: the superscript digits are not
  decimal, on them \<open>int\<close> raises \<open>ValueError\<close>; so it does on more than 4300 digits,
  the interpreter's limit on the conversion of decimal strings.\<close>

definition py_int_digits :: "string \<Rightarrow> exn + int" where
  "py_int_digits s =
     (if s \<noteq> [] \<and> list_all ascii_digit s \<and> length s \<le> 4300
      then Inr (foldl (\<lambda>acc c. 10 * acc + digit_val c) 0 s)
      else Inl ValueError)"

definition digit_char :: "nat \<Rightarrow> char" where
  "digit_char n = char_of (48 + n)"

function str_nat :: "nat \<Rightarrow> string" where
  "str_nat n = (if n < 10 then [digit_char n] else str_nat (n div 10) @ [digit_char (n mod 10)])"
  by pat_completeness auto
termination
  by (relation "measure id") auto

declare str_nat.simps [simp del]

definition str_int :: "int \<Rightarrow> string" where
  "str_int k = (if k < 0 then CHR ''-'' # str_nat (nat (- k)) else str_nat (nat k))"


section \<open>Configuration values\<close>

text \<open>
  \<open>bot.config\<close> is whatever the configuration loader produced. Its values range over
  \<open>None\<close>, booleans, integers, strings, lists and dictionaries (a dictionary as an
  association list with string keys); floating-point values are outside this model.
\<close>

datatype pyval =
    PNone | PBool bool | PInt int | PStr string
  | PList "pyval list" | PDict "(string \<times> pyval) list"

fun truthy :: "pyval \<Rightarrow> bool" where
  "truthy PNone = False"
| "truthy (PBool b) = b"
| "truthy (PInt n) = (n \<noteq> 0)"
| "truthy (PStr s) = (s \<noteq> [])"
| "truthy (PList xs) = (xs \<noteq> [])"
| "truthy (PDict d) = (d \<noteq> [])"

text \<open>\<open>x.get(key, default)\<close>: a dictionary method; any other value has no attribute
  \<open>get\<close>.\<close>

fun py_get :: "pyval \<Rightarrow> string \<Rightarrow> pyval \<Rightarrow> exn + pyval" where
  "py_get (PDict d) k dflt = Inr (case map_of d k of None \<Rightarrow> dflt | Some v \<Rightarrow> v)"
| "py_get _ k dflt = Inl AttributeError"

text \<open>\<open>x[key]\<close> with a string key: \<open>KeyError\<close> on a dictionary without the key,
  \<open>TypeError\<close> on \<open>None\<close>, numbers, strings and lists.\<close>

fun py_index :: "pyval \<Rightarrow> string \<Rightarrow> exn + pyval" where
  "py_index (PDict d) k = (case map_of d k of None \<Rightarrow> Inl (KeyError k) | Some v \<Rightarrow> Inr v)"
| "py_index _ k = Inl TypeError"

text \<open>\<open>int(s)\<close> on a string: surrounding whitespace is dropped, one sign is allowed,
  and single underscores may separate the digits. The whitespace \<open>int\<close> drops is that of
  \<open>str.strip\<close> without the four separators 28 to 31.\<close>

definition int_isspace :: "char \<Rightarrow> bool" where
  "int_isspace c = (let n = (of_char c :: nat) in
     (9 \<le> n \<and> n \<le> 13) \<or> n = 32 \<or> n = 133 \<or> n = 160)"

definition int_strip :: "string \<Rightarrow> string" where
  "int_strip s = rev (dropWhile int_isspace (rev (dropWhile int_isspace s)))"

fun digit_groups :: "string \<Rightarrow> bool" where
  "digit_groups [] = False"
| "digit_groups [c] = ascii_digit c"
| "digit_groups (c # d # cs) =
     (ascii_digit c \<and> (if d = CHR ''_'' then digit_groups cs else digit_groups (d # cs)))"

definition py_int_unsigned :: "string \<Rightarrow> exn + int" where
  "py_int_unsigned s =
     (if digit_groups s then py_int_digits (filter (\<lambda>c. c \<noteq> CHR ''_'') s) else Inl ValueError)"

definition py_int_str :: "string \<Rightarrow> exn + int" where
  "py_int_str s =
     (case int_strip s of
        [] \<Rightarrow> Inl ValueError
      | c # cs \<Rightarrow>
          if c = CHR ''-'' then (case py_int_unsigned cs of Inl e \<Rightarrow> Inl e | Inr n \<Rightarrow> Inr (- n))
          else if c = CHR ''+'' then py_int_unsigned cs
          else py_int_unsigned (c # cs))"

fun py_int :: "pyval \<Rightarrow> exn + int" where
  "py_int (PInt n) = Inr n"
| "py_int (PBool b) = Inr (if b then 1 else 0)"
| "py_int (PStr s) = py_int_str s"
| "py_int _ = Inl TypeError"

definition lower_char :: "char \<Rightarrow> char" where
  "lower_char c = (let n = (of_char c :: nat) in
     if (65 \<le> n \<and> n \<le> 90) \<or> (192 \<le> n \<and> n \<le> 222 \<and> n \<noteq> 215) then char_of (n + 32) else c)"

definition py_lower :: "string \<Rightarrow> string" where
  "py_lower s = map lower_char s"

text \<open>\<open>str(x)\<close>. The rendering of a list or a dictionary is cut after its opening
  bracket: the cog only compares the result with the four action names.\<close>

fun py_str :: "pyval \<Rightarrow> string" where
  "py_str PNone = ''None''"
| "py_str (PBool b) = (if b then ''True'' else ''False'')"
| "py_str (PInt n) = str_int n"
| "py_str (PStr s) = s"
| "py_str (PList xs) = ''[''"
| "py_str (PDict d) = ''{''"

text \<open>\<open>timedelta(minutes=x)\<close>, as a number of minutes: a number is accepted when the
  day count stays within 999999999 in magnitude.\<close>

definition timedelta_minutes_int :: "int \<Rightarrow> exn + int" where
  "timedelta_minutes_int n =
     (if n div 1440 < - 999999999 \<or> 999999999 < n div 1440 then Inl OverflowError else Inr n)"

fun timedelta_minutes :: "pyval \<Rightarrow> exn + int" where
  "timedelta_minutes (PInt n) = timedelta_minutes_int n"
| "timedelta_minutes (PBool b) = Inr (if b then 1 else 0)"
| "timedelta_minutes _ = Inl TypeError"

section \<open>Guilds, members, messages\<close>

text \<open>
  \<open>top_role\<close> is the rank of the member's highest role; roles of one guild are
  linearly ordered. \<open>owner\<close> is \<open>guild.owner\<close>, the member object of the owner as the
  client has it, \<open>None\<close> when it does not. Two members are equal when their ids are.
\<close>

record member =
  mid :: nat
  mname :: string
  top_role :: nat

record guild =
  gid :: nat
  gname :: string
  owner_id :: nat
  owner :: "member option"

datatype invoker = Member member | User nat string

datatype channel = TextChannel nat | OtherChannel nat

record interaction =
  iguild :: "guild option"
  iuser :: invoker
  ichannel :: "channel option"

definition is_guild_owner :: "guild \<Rightarrow> member \<Rightarrow> bool" where
  "is_guild_owner g m = (case owner g of None \<Rightarrow> False | Some ow \<Rightarrow> mid m = mid ow)"

definition invoker_id :: "invoker \<Rightarrow> nat" where
  "invoker_id u = (case u of Member m \<Rightarrow> mid m | User n nm \<Rightarrow> n)"

definition mention :: "nat \<Rightarrow> string" where
  "mention n = ''<@'' @ str_nat n @ ''>''"

datatype glyph = Cross | Check | WarnSign

datatype mtext = T string | G glyph mtext | ErrorText exn

datatype color = Green | Red | Blue | Orange | Blurple

record embed =
  title :: "string option"
  description :: "mtext option"
  color :: color
  embed_fields :: "(string \<times> string) list"

definition create_error_embed :: "mtext \<Rightarrow> embed" where
  "create_error_embed message = \<lparr>title = None, description = Some (G Cross message), color = Red, embed_fields = []\<rparr>"

definition create_success_embed :: "mtext \<Rightarrow> embed" where
  "create_success_embed message = \<lparr>title = None, description = Some (G Check message), color = Green, embed_fields = []\<rparr>"

definition result_embed :: "string \<Rightarrow> string \<Rightarrow> color \<Rightarrow> embed" where
  "result_embed t d c = \<lparr>title = Some t, description = Some (T d), color = c, embed_fields = []\<rparr>"


section \<open>The world a command acts on\<close>

text \<open>
  A row of the warning table as \<open>get_warnings\<close> returns it: a dictionary read under
  the keys \<open>id\<close>, \<open>warning_id\<close>, \<open>_id\<close>, \<open>mod_id\<close>, \<open>reason\<close> and \<open>timestamp\<close>,
  together with the guild and the member it belongs to.
\<close>

record warning =
  w_guild :: nat
  w_member :: nat
  w_id :: "int option"
  w_warning_id :: "int option"
  w_underscore_id :: "int option"
  w_mod_id :: "nat option"
  w_reason :: "string option"
  w_timestamp :: string

record log_entry =
  log_guild :: nat
  log_name :: string
  log_target :: nat
  log_moderator :: nat
  log_reason :: "string option"

text \<open>Calls to the chat platform other than replies to the interaction. A timeout
  carries its length in minutes, \<open>None\<close> to lift it.\<close>

datatype ext_call =
    KickCall nat string
  | BanCall nat string
  | TimeoutCall nat "int option" string
  | FetchUserCall int
  | UnbanCall nat
  | PurgeCall int
  | DirectMessage nat embed
  | ChannelSend nat embed

datatype via = Initial | Followup | EditOriginal

record reply =
  via :: via
  ephemeral :: bool
  content :: "mtext option"
  reply_embed :: "embed option"
  view :: bool

record world =
  warning_rows :: "warning list"
  next_id :: int
  action_log :: "log_entry list"
  calls :: "ext_call list"
  replies :: "reply list"
  is_done :: bool

record settings =
  log_channel :: "nat option"

text \<open>
  What the platform, the confirmation dialog and the store answer during one
  invocation: for each call that can fail, the exception it raises, if any. Replies to
  the interaction and the store's writes and counts are taken to succeed; the settings
  read of the modlog step and the two reads under \<open>_db_call\<close> can fail.
  \<open>view_value\<close> is \<open>ConfirmView.value\<close> after \<open>wait()\<close>: \<open>Some True\<close> accepted,
  \<open>Some False\<close> declined, \<open>None\<close> timed out.
\<close>

record env =
  defer_result :: "exn option"
  kick_result :: "exn option"
  ban_result :: "exn option"
  timeout_result :: "exn option"
  fetch_user_result :: "exn option"
  unban_result :: "exn option"
  purge_result :: "exn + nat"
  dm_result :: "exn option"
  view_value :: "bool option"
  original_response_result :: "exn option"
  settings_result :: "nat \<Rightarrow> exn + settings"
  get_channel :: "nat \<Rightarrow> bool"
  channel_send_result :: "exn option"
  get_warnings_in_time :: bool
  clear_warnings_in_time :: bool
  now :: string

text \<open>\<open>config\<close> is \<open>None\<close> when the bot object has no attribute \<open>config\<close>; the two
  flags say which optional deletion methods the store object has.\<close>

record bot =
  config :: "pyval option"
  has_delete_warning :: bool
  has_remove_warning :: bool

datatype 'a outcome = Done 'a world | Raised exn world

fun and_then :: "'a outcome \<Rightarrow> ('a \<Rightarrow> world \<Rightarrow> 'b outcome) \<Rightarrow> 'b outcome" where
  "and_then (Done a w) f = f a w"
| "and_then (Raised e w) f = Raised e w"

fun final_world :: "'a outcome \<Rightarrow> world" where
  "final_world (Done a w) = w"
| "final_world (Raised e w) = w"

subsection \<open>Replies\<close>

definition respond :: "mtext option \<Rightarrow> embed option \<Rightarrow> bool \<Rightarrow> bool \<Rightarrow> world \<Rightarrow> world" where
  "respond c e eph v w =
     w\<lparr>replies := replies w @
          [\<lparr>via = (if is_done w then Followup else Initial), ephemeral = eph,
            content = c, reply_embed = e, view = v\<rparr>],
       is_done := True\<rparr>"

definition followup_send :: "mtext option \<Rightarrow> embed option \<Rightarrow> bool \<Rightarrow> world \<Rightarrow> world" where
  "followup_send c e eph w =
     w\<lparr>replies := replies w @
          [\<lparr>via = Followup, ephemeral = eph, content = c, reply_embed = e, view = False\<rparr>]\<rparr>"

definition msg_edit :: "mtext option \<Rightarrow> embed option \<Rightarrow> world \<Rightarrow> world" where
  "msg_edit c e w =
     w\<lparr>replies := replies w @
          [\<lparr>via = EditOriginal, ephemeral = True, content = c, reply_embed = e, view = False\<rparr>]\<rparr>"

definition defer_reply :: "env \<Rightarrow> world \<Rightarrow> world" where
  "defer_reply env w =
     (if is_done w then w
      else case defer_result env of None \<Rightarrow> w\<lparr>is_done := True\<rparr> | Some e \<Rightarrow> w)"

definition response_defer :: "env \<Rightarrow> world \<Rightarrow> unit outcome" where
  "response_defer env w =
     (if is_done w then Raised InteractionResponded w
      else case defer_result env of None \<Rightarrow> Done () (w\<lparr>is_done := True\<rparr>) | Some e \<Rightarrow> Raised e w)"

definition context_error :: mtext where
  "context_error = G Cross (T ''This command can only be used in a server.'')"

definition reply_context_error :: "world \<Rightarrow> unit outcome" where
  "reply_context_error w = Done () (respond (Some context_error) None True False w)"

definition reply_error :: "mtext \<Rightarrow> world \<Rightarrow> unit outcome" where
  "reply_error m w = Done () (respond None (Some (create_error_embed m)) True False w)"

subsection \<open>Platform calls\<close>

definition api :: "ext_call \<Rightarrow> exn option \<Rightarrow> world \<Rightarrow> unit outcome" where
  "api c r w =
     (let w' = w\<lparr>calls := calls w @ [c]\<rparr>
      in case r of None \<Rightarrow> Done () w' | Some e \<Rightarrow> Raised e w')"

definition swallow :: "unit outcome \<Rightarrow> world" where
  "swallow r = (case r of Done u w \<Rightarrow> w | Raised e w \<Rightarrow> w)"

subsection \<open>The store\<close>

text \<open>Modelled from the spec: the store's \<open>addWarning\<close>, absent from the sources. It
  creates one Warning Record with an identifier of the store's choosing; the store
  returns warnings newest first.\<close>

definition add_warning :: "nat \<Rightarrow> nat \<Rightarrow> nat \<Rightarrow> string \<Rightarrow> string \<Rightarrow> world \<Rightarrow> world" where
  "add_warning g m moderator reason stamp w =
     w\<lparr>warning_rows :=
          \<lparr>w_guild = g, w_member = m, w_id = Some (next_id w), w_warning_id = None,
           w_underscore_id = None, w_mod_id = Some moderator, w_reason = Some reason,
           w_timestamp = stamp\<rparr> # warning_rows w,
       next_id := next_id w + 1\<rparr>"

text \<open>Modelled from the spec: the store's \<open>logAction\<close>, absent from the sources. It
  appends one Action Log Entry.\<close>

definition log_action :: "nat \<Rightarrow> string \<Rightarrow> nat \<Rightarrow> nat \<Rightarrow> string option \<Rightarrow> world \<Rightarrow> world" where
  "log_action g a target moderator reason w =
     w\<lparr>action_log := action_log w @
          [\<lparr>log_guild = g, log_name = a, log_target = target, log_moderator = moderator,
            log_reason = reason\<rparr>]\<rparr>"

text \<open>Modelled from the spec: the store's \<open>getWarnings\<close>, absent from the sources:
  the ordered list of the member's warnings in the guild.\<close>

definition get_warnings :: "nat \<Rightarrow> nat \<Rightarrow> world \<Rightarrow> warning list" where
  "get_warnings g m w = filter (\<lambda>r. w_guild r = g \<and> w_member r = m) (warning_rows w)"

text \<open>Modelled from the spec: the store's \<open>getWarningCount\<close>, absent from the
  sources: the number of the member's warnings in the guild.\<close>

definition get_warning_count :: "nat \<Rightarrow> nat \<Rightarrow> world \<Rightarrow> int" where
  "get_warning_count g m w = int (length (get_warnings g m w))"

text \<open>Modelled from the spec: the store's \<open>clearWarnings\<close>, absent from the sources.
  It deletes every Warning Record of the member in the guild and returns how many.\<close>

definition clear_warnings :: "nat \<Rightarrow> nat \<Rightarrow> world \<Rightarrow> nat \<times> world" where
  "clear_warnings g m w =
     (length (get_warnings g m w),
      w\<lparr>warning_rows := filter (\<lambda>r. \<not> (w_guild r = g \<and> w_member r = m)) (warning_rows w)\<rparr>)"

text \<open>Python's \<open>a or b\<close> on optional integers: \<open>None\<close> and \<open>0\<close> are falsy.\<close>

definition py_or :: "int option \<Rightarrow> int option \<Rightarrow> int option" where
  "py_or a b = (case a of None \<Rightarrow> b | Some n \<Rightarrow> if n \<noteq> 0 then a else b)"

definition row_wid :: "warning \<Rightarrow> int option" where
  "row_wid r = py_or (py_or (w_id r) (w_warning_id r)) (w_underscore_id r)"

text \<open>Modelled from the spec: the store's optional \<open>deleteWarning\<close>, absent from the
  sources: the precise deletion of the guild's record with the given identifier.\<close>

definition delete_warning :: "nat \<Rightarrow> int \<Rightarrow> world \<Rightarrow> world" where
  "delete_warning g wid w =
     w\<lparr>warning_rows := filter (\<lambda>r. \<not> (w_guild r = g \<and> row_wid r = Some wid)) (warning_rows w)\<rparr>"

fun remove_first :: "('a \<Rightarrow> bool) \<Rightarrow> 'a list \<Rightarrow> 'a list" where
  "remove_first P [] = []"
| "remove_first P (x # xs) = (if P x then xs else x # remove_first P xs)"

text \<open>Modelled from the spec: the store's optional \<open>removeWarning\<close>, absent from the
  sources: the coarse capability that removes a warning for this member, here the
  first one the store lists.\<close>

definition remove_warning :: "nat \<Rightarrow> nat \<Rightarrow> world \<Rightarrow> world" where
  "remove_warning g m w =
     w\<lparr>warning_rows := remove_first (\<lambda>r. w_guild r = g \<and> w_member r = m) (warning_rows w)\<rparr>"


section \<open>The moderation commands\<close>

definition nl :: string where
  "nl = [CHR 0x0A]"

definition by_line :: "string \<Rightarrow> member \<Rightarrow> string" where
  "by_line verb author = '' | '' @ verb @ '' by '' @ mname author @ '' ('' @ str_nat (mid author) @ '')''"

text \<open>\<open>_post_modlog\<close>: the settings read is outside the \<open>try\<close>, the send inside.\<close>

definition post_modlog :: "env \<Rightarrow> guild \<Rightarrow> embed \<Rightarrow> world \<Rightarrow> unit outcome" where
  "post_modlog env g e w =
     (case settings_result env (gid g) of
        Inl ex \<Rightarrow> Raised ex w
      | Inr st \<Rightarrow>
          (case log_channel st of
             None \<Rightarrow> Done () w
           | Some channel_id \<Rightarrow>
               if channel_id = 0 then Done () w
               else if get_channel env channel_id
                 then Done () (swallow (api (ChannelSend channel_id e) (channel_send_result env) w))
                 else Done () w))"

text \<open>The two \<open>except\<close> clauses that close most commands: \<open>discord.Forbidden\<close> first,
  then \<open>discord.HTTPException\<close>; anything else leaves the command.\<close>

definition catch_api :: "(mtext \<Rightarrow> world \<Rightarrow> unit outcome) \<Rightarrow> mtext \<Rightarrow> mtext \<Rightarrow> unit outcome \<Rightarrow> unit outcome" where
  "catch_api report forbidden_msg http_msg r =
     (case r of
        Done u w \<Rightarrow> Done u w
      | Raised ex w \<Rightarrow>
          if ex = Forbidden then report forbidden_msg w
          else if is_HTTPException ex then report http_msg w
          else Raised ex w)"

subsection \<open>kick\<close>

text \<open>The body of the \<open>try\<close>.\<close>

definition kick_body :: "env \<Rightarrow> guild \<Rightarrow> member \<Rightarrow> member \<Rightarrow> string \<Rightarrow> world \<Rightarrow> unit outcome" where
  "kick_body env g author member reason w0 =
     and_then
       (api (KickCall (mid member) (reason @ by_line ''Kicked'' author)) (kick_result env) w0)
       (\<lambda>u w1.
          let w2 = log_action (gid g) ''kick'' (mid member) (mid author) (Some reason) w1;
              e = result_embed ''Member Kicked''
                    (mention (mid member) @ '' has been kicked.'' @ nl @
                     ''**Moderator:** '' @ mention (mid author) @ nl @
                     ''**Reason:** '' @ reason) Orange;
              w3 = respond None (Some e) False False w2
          in post_modlog env g e w3)"

definition kick :: "env \<Rightarrow> interaction \<Rightarrow> member \<Rightarrow> string \<Rightarrow> world \<Rightarrow> unit outcome" where
  "kick env i member reason w =
     (case iguild i of
        None \<Rightarrow> reply_context_error w
      | Some g \<Rightarrow>
          (case iuser i of
             User n nm \<Rightarrow> reply_context_error w
           | Member author \<Rightarrow>
               if is_guild_owner g member
                 then reply_error (T ''You cannot kick the server owner.'') w
               else if top_role member \<ge> top_role author \<and> mid author \<noteq> owner_id g
                 then reply_error (T ''You cannot kick someone with a higher or equal role.'') w
               else
                 catch_api reply_error
                   (T ''I don't have permission to kick this member.'')
                   (T ''Kick failed due to a Discord API error.'')
                   (kick_body env g author member reason (defer_reply env w))))"

subsection \<open>ban\<close>

definition ban_report :: "bool \<Rightarrow> mtext \<Rightarrow> world \<Rightarrow> unit outcome" where
  "ban_report have_msg err w =
     (if have_msg then Done () (msg_edit (Some err) None w) else reply_error err w)"

text \<open>The body of the \<open>try\<close> that follows an accepted confirmation.\<close>

definition ban_body :: "env \<Rightarrow> guild \<Rightarrow> member \<Rightarrow> member \<Rightarrow> string \<Rightarrow> bool \<Rightarrow> world \<Rightarrow> unit outcome" where
  "ban_body env g author member reason have_msg w1 =
     and_then
       (api (BanCall (mid member) (reason @ by_line ''Banned'' author)) (ban_result env) w1)
       (\<lambda>u w2.
          let w3 = log_action (gid g) ''ban'' (mid member) (mid author) (Some reason) w2;
              e = result_embed ''Member Banned''
                    (mention (mid member) @ '' has been banned.'' @ nl @
                     ''**Moderator:** '' @ mention (mid author) @ nl @
                     ''**Reason:** '' @ reason) Red;
              w4 = (if have_msg then msg_edit None (Some e) w3
                    else respond None (Some e) True False w3)
          in post_modlog env g e w4)"

definition ban :: "env \<Rightarrow> interaction \<Rightarrow> member \<Rightarrow> string \<Rightarrow> world \<Rightarrow> unit outcome" where
  "ban env i member reason w =
     (case iguild i of
        None \<Rightarrow> reply_context_error w
      | Some g \<Rightarrow>
          (case iuser i of
             User n nm \<Rightarrow> reply_context_error w
           | Member author \<Rightarrow>
               if is_guild_owner g member
                 then reply_error (T ''You cannot ban the server owner.'') w
               else if top_role member \<ge> top_role author \<and> mid author \<noteq> owner_id g
                 then reply_error (T ''You cannot ban someone with a higher or equal role.'') w
               else
                 let w1 = respond (Some (T (''Are you sure you want to ban '' @ mention (mid member) @ ''?'')))
                            None True True w;
                     have_msg = (original_response_result env = None)
                 in
                   if view_value env \<noteq> Some True
                     then Done () (if have_msg then msg_edit (Some (G Cross (T ''Ban cancelled.''))) None w1 else w1)
                   else
                     catch_api (ban_report have_msg)
                       (G Cross (T ''I don't have permission to ban this member.''))
                       (G Cross (T ''Ban failed due to a Discord API error.''))
                       (ban_body env g author member reason have_msg w1)))"

subsection \<open>unban\<close>

definition clean_user_id :: "string \<Rightarrow> string" where
  "clean_user_id user_id =
     py_replace ''!'' [] (py_replace ''>'' [] (py_replace ''<@'' [] (py_strip user_id)))"

definition catch_unban :: "unit outcome \<Rightarrow> unit outcome" where
  "catch_unban r =
     (case r of
        Done u w \<Rightarrow> Done u w
      | Raised ex w \<Rightarrow>
          if ex = NotFound then reply_error (T ''User not found or not banned.'') w
          else if ex = Forbidden then reply_error (T ''I don't have permission to unban users.'') w
          else if is_HTTPException ex then reply_error (T ''Unban failed due to a Discord API error.'') w
          else Raised ex w)"

definition unban :: "env \<Rightarrow> interaction \<Rightarrow> string \<Rightarrow> world \<Rightarrow> unit outcome" where
  "unban env i user_id w =
     (case iguild i of
        None \<Rightarrow> reply_context_error w
      | Some g \<Rightarrow>
          (case iuser i of
             User n nm \<Rightarrow> reply_context_error w
           | Member author \<Rightarrow>
               let cleaned = clean_user_id user_id in
               if \<not> py_isdigit cleaned
                 then reply_error (T ''Please provide a valid user ID.'') w
               else
                 let w1 = defer_reply env w in
                 (case py_int_digits cleaned of
                    Inl ex \<Rightarrow> Raised ex w1
                  | Inr uid \<Rightarrow>
                      catch_unban
                        (and_then (api (FetchUserCall uid) (fetch_user_result env) w1)
                           (\<lambda>u w2.
                              and_then (api (UnbanCall (nat uid)) (unban_result env) w2)
                                (\<lambda>u w3.
                                   let w4 = log_action (gid g) ''unban'' (nat uid) (mid author) None w3;
                                       e = result_embed ''User Unbanned''
                                             (mention (nat uid) @ '' has been unbanned.'' @ nl @
                                              ''**Moderator:** '' @ mention (mid author)) Green;
                                       w5 = respond None (Some e) False False w4
                                   in post_modlog env g e w5))))))"


subsection \<open>warn\<close>

text \<open>\<open>(getattr(self.bot, "config", {}) or {}).get("moderation", {})\<close>, replaced by
  the empty dictionary when it is not a dictionary.\<close>

definition moderation_cfg :: "bot \<Rightarrow> exn + (string \<times> pyval) list" where
  "moderation_cfg b =
     (let cfg = (case config b of None \<Rightarrow> PDict [] | Some c \<Rightarrow> c);
          cfg' = (if truthy cfg then cfg else PDict [])
      in case py_get cfg' ''moderation'' (PDict []) of
           Inl ex \<Rightarrow> Inl ex
         | Inr (PDict d) \<Rightarrow> Inr d
         | Inr _ \<Rightarrow> Inr [])"

definition dict_get :: "(string \<times> pyval) list \<Rightarrow> string \<Rightarrow> pyval \<Rightarrow> pyval" where
  "dict_get d k dflt = (case map_of d k of None \<Rightarrow> dflt | Some v \<Rightarrow> v)"

text \<open>\<open>int(mod_cfg.get(key, dflt))\<close> inside \<open>try\<close>, with \<open>dflt\<close> on any exception.\<close>

definition cfg_int :: "(string \<times> pyval) list \<Rightarrow> string \<Rightarrow> int \<Rightarrow> int" where
  "cfg_int d k dflt = (case py_int (dict_get d k (PInt dflt)) of Inl ex \<Rightarrow> dflt | Inr n \<Rightarrow> n)"

text \<open>\<open>self.bot.config["moderation"]["warn_threshold_timeout_duration"]\<close>, by plain
  indexing.\<close>

definition cfg_timeout_duration :: "bot \<Rightarrow> exn + pyval" where
  "cfg_timeout_duration b =
     (case config b of
        None \<Rightarrow> Inl AttributeError
      | Some c \<Rightarrow>
          (case py_index c ''moderation'' of
             Inl ex \<Rightarrow> Inl ex
           | Inr m \<Rightarrow> py_index m ''warn_threshold_timeout_duration''))"

definition catch_forbidden :: "mtext \<Rightarrow> unit outcome \<Rightarrow> unit outcome" where
  "catch_forbidden msg r =
     (case r of
        Done u w \<Rightarrow> Done u w
      | Raised ex w \<Rightarrow>
          if ex = Forbidden then Done () (followup_send None (Some (create_error_embed msg)) True w)
          else Raised ex w)"

definition reached :: "int \<Rightarrow> string" where
  "reached warn_threshold = ''Reached '' @ str_int warn_threshold @ '' warnings''"

definition announce :: "member \<Rightarrow> string \<Rightarrow> int \<Rightarrow> world \<Rightarrow> unit outcome" where
  "announce member what warn_threshold w =
     Done () (followup_send
       (Some (G WarnSign (T (mention (mid member) @ '' has been '' @ what @ '' for reaching '' @
                              str_int warn_threshold @ '' warnings.''))))
       None False w)"

definition warn_auto_action :: "bot \<Rightarrow> env \<Rightarrow> member \<Rightarrow> int \<Rightarrow> world \<Rightarrow> unit outcome" where
  "warn_auto_action b env member warning_count w =
     (case moderation_cfg b of
        Inl ex \<Rightarrow> Raised ex w
      | Inr mod_cfg \<Rightarrow>
          let warn_threshold = cfg_int mod_cfg ''warn_threshold'' 0;
              auto_action = py_lower (py_str (dict_get mod_cfg ''warn_threshold_action'' (PStr ''none'')))
          in
            if warn_threshold \<le> 0 \<or> auto_action = ''none'' then Done () w
            else if warning_count \<ge> warn_threshold \<and> auto_action \<noteq> ''none'' then
              if auto_action = ''timeout'' then
                (case cfg_timeout_duration b of
                   Inl ex \<Rightarrow> Raised ex w
                 | Inr duration \<Rightarrow>
                     catch_forbidden (T ''I don't have permission to timeout this member.'')
                       (case timedelta_minutes duration of
                          Inl ex \<Rightarrow> Raised ex w
                        | Inr minutes \<Rightarrow>
                            and_then
                              (api (TimeoutCall (mid member) (Some minutes) (reached warn_threshold))
                                 (timeout_result env) w)
                              (\<lambda>u. announce member ''timed out'' warn_threshold)))
              else if auto_action = ''kick'' then
                catch_forbidden (T ''I don't have permission to kick this member.'')
                  (and_then (api (KickCall (mid member) (reached warn_threshold)) (kick_result env) w)
                     (\<lambda>u. announce member ''kicked'' warn_threshold))
              else if auto_action = ''ban'' then
                catch_forbidden (T ''I don't have permission to ban this member.'')
                  (and_then (api (BanCall (mid member) (reached warn_threshold)) (ban_result env) w)
                     (\<lambda>u. announce member ''banned'' warn_threshold))
              else Done () w
            else Done () w)"

definition warned_embed :: "member \<Rightarrow> member \<Rightarrow> string \<Rightarrow> int \<Rightarrow> embed" where
  "warned_embed member author reason warning_count =
     result_embed ''Member Warned''
       (mention (mid member) @ '' has been warned.'' @ nl @
        ''**Total Warnings:** '' @ str_int warning_count @ nl @
        ''**Moderator:** '' @ mention (mid author) @ nl @
        ''**Reason:** '' @ reason) Orange"

definition dm_embed :: "guild \<Rightarrow> string \<Rightarrow> int \<Rightarrow> embed" where
  "dm_embed g reason warning_count =
     result_embed (''Warning in '' @ gname g)
       (''**Reason:** '' @ reason @ nl @ ''**Total Warnings:** '' @ str_int warning_count) Orange"

definition warn :: "bot \<Rightarrow> env \<Rightarrow> interaction \<Rightarrow> member \<Rightarrow> string \<Rightarrow> world \<Rightarrow> unit outcome" where
  "warn b env i member reason w =
     (case iguild i of
        None \<Rightarrow> reply_context_error w
      | Some g \<Rightarrow>
          (case iuser i of
             User n nm \<Rightarrow> reply_context_error w
           | Member author \<Rightarrow>
               if top_role member \<ge> top_role author \<and> mid author \<noteq> owner_id g
                 then reply_error (T ''You cannot warn someone with a higher or equal role.'') w
               else
                 let w1 = defer_reply env w;
                     w2 = add_warning (gid g) (mid member) (mid author) reason (now env) w1;
                     w3 = log_action (gid g) ''warn'' (mid member) (mid author) (Some reason) w2;
                     warning_count = get_warning_count (gid g) (mid member) w3;
                     e = warned_embed member author reason warning_count;
                     w4 = respond None (Some e) False False w3
                 in
                   and_then (post_modlog env g e w4)
                     (\<lambda>u w5.
                        let w6 = swallow (api (DirectMessage (mid member) (dm_embed g reason warning_count))
                                            (dm_result env) w5)
                        in warn_auto_action b env member warning_count w6)))"

subsection \<open>warnings, clearwarnings\<close>

definition warning_field :: "nat \<times> warning \<Rightarrow> string \<times> string" where
  "warning_field p =
     (case p of (i, r) \<Rightarrow>
        (''Warning '' @ str_nat i,
         ''**Reason:** '' @
           (case w_reason r of None \<Rightarrow> ''No reason'' | Some t \<Rightarrow> if t = [] then ''No reason'' else t) @ nl @
         ''**By:** '' @
           (case w_mod_id r of None \<Rightarrow> ''Unknown'' | Some n \<Rightarrow> if n = 0 then ''Unknown'' else mention n) @ nl @
         ''**Date:** '' @ w_timestamp r))"

definition warnings :: "env \<Rightarrow> interaction \<Rightarrow> member \<Rightarrow> world \<Rightarrow> unit outcome" where
  "warnings env i member w =
     (case iguild i of
        None \<Rightarrow> reply_context_error w
      | Some g \<Rightarrow>
          let w1 = defer_reply env w in
          if \<not> get_warnings_in_time env
            then reply_error (T ''DB timed out while fetching warnings. Try again.'') w1
          else
            let ws = get_warnings (gid g) (mid member) w1 in
            if ws = []
              then Done () (respond (Some (T (mention (mid member) @ '' has no warnings.''))) None True False w1)
            else
              Done () (respond None
                (Some \<lparr>title = Some (''Warnings for '' @ mname member),
                       description = Some (T (''Total warnings: '' @ str_nat (length ws))),
                       color = Orange,
                       embed_fields = map warning_field (enumerate 1 (take 10 ws))\<rparr>)
                True False w1))"

definition clearwarnings :: "env \<Rightarrow> interaction \<Rightarrow> member \<Rightarrow> world \<Rightarrow> unit outcome" where
  "clearwarnings env i member w =
     (case iguild i of
        None \<Rightarrow> reply_context_error w
      | Some g \<Rightarrow>
          let w1 = defer_reply env w in
          if \<not> clear_warnings_in_time env
            then reply_error (T ''DB timed out while clearing warnings. Try again.'') w1
          else
            (case clear_warnings (gid g) (mid member) w1 of
               (cleared, w2) \<Rightarrow>
                 Done () (respond
                   (Some (G Check (T (''Cleared '' @ str_nat cleared @ '' warning(s) for '' @
                                      mention (mid member) @ ''.''))))
                   None True False w2)))"


subsection \<open>timeout, untimeout, mute, unmute\<close>

text \<open>The body of the \<open>try\<close>.\<close>

definition timeout_body :: "env \<Rightarrow> guild \<Rightarrow> member \<Rightarrow> member \<Rightarrow> int \<Rightarrow> string \<Rightarrow> world \<Rightarrow> unit outcome" where
  "timeout_body env g author member duration reason w1 =
     (case timedelta_minutes_int duration of
        Inl ex \<Rightarrow> Raised ex w1
      | Inr minutes \<Rightarrow>
          and_then
            (api (TimeoutCall (mid member) (Some minutes) (reason @ by_line ''Timed out'' author))
               (timeout_result env) w1)
            (\<lambda>u w2.
               let w3 = log_action (gid g) ''timeout'' (mid member) (mid author) (Some reason) w2;
                   e = result_embed ''Member Timed Out''
                         (mention (mid member) @ '' has been timed out for '' @
                          str_int duration @ '' minutes.'' @ nl @
                          ''**Moderator:** '' @ mention (mid author) @ nl @
                          ''**Reason:** '' @ reason) Orange;
                   w4 = respond None (Some e) False False w3
               in post_modlog env g e w4))"

definition timeout :: "env \<Rightarrow> interaction \<Rightarrow> member \<Rightarrow> int \<Rightarrow> string \<Rightarrow> world \<Rightarrow> unit outcome" where
  "timeout env i member duration reason w =
     (case iguild i of
        None \<Rightarrow> reply_context_error w
      | Some g \<Rightarrow>
          (case iuser i of
             User n nm \<Rightarrow> reply_context_error w
           | Member author \<Rightarrow>
               if top_role member \<ge> top_role author \<and> mid author \<noteq> owner_id g
                 then reply_error (T ''You cannot timeout someone with a higher or equal role.'') w
               else
                 catch_api reply_error
                   (T ''I don't have permission to timeout this member.'')
                   (T ''Timeout failed due to a Discord API error.'')
                   (timeout_body env g author member duration reason (defer_reply env w))))"

definition untimeout :: "env \<Rightarrow> interaction \<Rightarrow> member \<Rightarrow> world \<Rightarrow> unit outcome" where
  "untimeout env i member w =
     (case iguild i of
        None \<Rightarrow> reply_context_error w
      | Some g \<Rightarrow>
          (case iuser i of
             User n nm \<Rightarrow> reply_context_error w
           | Member author \<Rightarrow>
               let w1 = defer_reply env w in
               catch_api reply_error
                 (T ''I don't have permission to remove timeout.'')
                 (T ''Untimeout failed due to a Discord API error.'')
                 (and_then
                    (api (TimeoutCall (mid member) None
                            (''Timeout removed by '' @ mname author @ '' ('' @ str_nat (mid author) @ '')''))
                       (timeout_result env) w1)
                    (\<lambda>u w2.
                       let w3 = log_action (gid g) ''untimeout'' (mid member) (mid author) None w2;
                           e = result_embed ''Timeout Removed''
                                 (''Timeout removed from '' @ mention (mid member) @ ''.'' @ nl @
                                  ''**Moderator:** '' @ mention (mid author)) Green;
                           w4 = respond None (Some e) False False w3
                       in post_modlog env g e w4))))"

text \<open>
  \<open>mute\<close> and \<open>unmute\<close> call \<open>self.timeout(...)\<close> and \<open>self.untimeout(...)\<close>. In the
  class these names are bound to the \<open>app_commands.Command\<close> objects that the decorator
  made of the two coroutines, and such an object is not callable: the call raises
  \<open>TypeError\<close> before any guard of \<open>timeout\<close> or \<open>untimeout\<close> is reached.
\<close>

definition mute :: "env \<Rightarrow> interaction \<Rightarrow> member \<Rightarrow> int \<Rightarrow> string \<Rightarrow> world \<Rightarrow> unit outcome" where
  "mute env i member duration reason w = Raised TypeError w"

definition unmute :: "env \<Rightarrow> interaction \<Rightarrow> member \<Rightarrow> world \<Rightarrow> unit outcome" where
  "unmute env i member w = Raised TypeError w"

subsection \<open>unwarn\<close>

definition unwarn :: "bot \<Rightarrow> env \<Rightarrow> interaction \<Rightarrow> member \<Rightarrow> world \<Rightarrow> unit outcome" where
  "unwarn b env i member w =
     (case iguild i of
        None \<Rightarrow> reply_context_error w
      | Some g \<Rightarrow>
          let w1 = defer_reply env w in
          (case get_warnings (gid g) (mid member) w1 of
             [] \<Rightarrow> reply_error (T ''That member has no warnings.'') w1
           | latest # rest \<Rightarrow>
               let wid = row_wid latest;
                   finish = (\<lambda>w2.
                     let new_count = get_warning_count (gid g) (mid member) w2;
                         w3 = log_action (gid g) ''unwarn'' (mid member) (invoker_id (iuser i))
                                (Some ''Removed latest warning'') w2
                     in Done () (respond None
                          (Some (create_success_embed
                             (T (''Removed 1 warning from '' @ mention (mid member) @ ''. Now: '' @
                                 str_int new_count @ ''.''))))
                          True False w3))
               in
                 case (if has_delete_warning b then wid else None) of
                   Some x \<Rightarrow> finish (delete_warning (gid g) x w1)
                 | None \<Rightarrow>
                     if has_remove_warning b
                       then finish (remove_warning (gid g) (mid member) w1)
                     else reply_error
                            (T ''Unwarn is not supported by your DB backend. Use /clearwarnings instead.'') w1))"

subsection \<open>features, purge\<close>

definition features_text :: string where
  "features_text =
     ''**Moderation (slash):**'' @ nl @
     ''- /kick (role checks, DB log, optional modlog)'' @ nl @
     ''- /ban (confirmation UI, DB log, optional modlog)'' @ nl @
     ''- /unban (by user ID/mention, DB log, optional modlog)'' @ nl @
     ''- /warn (stores warnings, DB log, DM attempt, optional threshold auto-action)'' @ nl @
     ''- /warnings (view warnings)'' @ nl @
     ''- /clearwarnings (admin-only)'' @ nl @
     ''- /timeout, /untimeout (DB log, optional modlog)'' @ nl @ nl @
     ''**Operational:**'' @ nl @
     ''- Optional slash command sync on cog load (config-driven)'' @ nl @
     ''- Shared app-command error handler (safe followups)'' @ nl @
     ''- Modlog posting to configured log channel'' @ nl"

definition features :: "interaction \<Rightarrow> world \<Rightarrow> unit outcome" where
  "features i w =
     Done () (respond None
       (Some (result_embed ''Bot Features (loaded from this cog)'' features_text Blurple))
       True False w)"

definition followup_error :: "mtext \<Rightarrow> world \<Rightarrow> unit outcome" where
  "followup_error m w = Done () (followup_send None (Some (create_error_embed m)) True w)"

text \<open>\<open>channel.purge(limit=amount)\<close> answers with the messages it deleted.\<close>

definition channel_purge :: "env \<Rightarrow> int \<Rightarrow> world \<Rightarrow> nat outcome" where
  "channel_purge env amount w =
     (let w' = w\<lparr>calls := calls w @ [PurgeCall amount]\<rparr>
      in case purge_result env of Inl ex \<Rightarrow> Raised ex w' | Inr deleted \<Rightarrow> Done deleted w')"

definition purge :: "bot \<Rightarrow> env \<Rightarrow> interaction \<Rightarrow> int \<Rightarrow> world \<Rightarrow> unit outcome" where
  "purge b env i amount w =
     (case iguild i of
        None \<Rightarrow> reply_context_error w
      | Some g \<Rightarrow>
          (case moderation_cfg b of
             Inl ex \<Rightarrow> Raised ex w
           | Inr mod_cfg \<Rightarrow>
               let max_amount = cfg_int mod_cfg ''max_purge_amount'' 100 in
               if amount > max_amount
                 then reply_error (T (''Max purge amount is '' @ str_int max_amount @ ''.'')) w
               else
                 and_then (response_defer env w)
                   (\<lambda>u w1.
                      case ichannel i of
                        None \<Rightarrow> followup_error (T ''This command can only be used in a text-based channel.'') w1
                      | Some (OtherChannel c) \<Rightarrow>
                          followup_error (T ''This command can only be used in a text-based channel.'') w1
                      | Some (TextChannel c) \<Rightarrow>
                          catch_api followup_error
                            (T ''I don't have permission to delete messages here.'')
                            (T ''Failed to delete messages. Messages might be too old.'')
                            (and_then (channel_purge env amount w1)
                               (\<lambda>deleted w2.
                                  let w3 = followup_send None
                                             (Some (create_success_embed
                                                (T (''Deleted **'' @ str_nat deleted @ ''** messages.''))))
                                             True w2
                                  in Done () (log_action (gid g) ''purge'' (invoker_id (iuser i))
                                                (invoker_id (iuser i))
                                                (Some (''Purged '' @ str_nat deleted @ '' messages'')) w3))))))"

section \<open>Dispatch and the cog's error handler\<close>

datatype command =
    Kick member string
  | Ban member string
  | Unban string
  | Warn member string
  | Warnings member
  | Clearwarnings member
  | Timeout member int string
  | Untimeout member
  | Mute member int string
  | Unmute member
  | Unwarn member
  | Features
  | Purge int

fun run :: "bot \<Rightarrow> env \<Rightarrow> interaction \<Rightarrow> command \<Rightarrow> world \<Rightarrow> unit outcome" where
  "run b env i (Kick m r) w = kick env i m r w"
| "run b env i (Ban m r) w = ban env i m r w"
| "run b env i (Unban s) w = unban env i s w"
| "run b env i (Warn m r) w = warn b env i m r w"
| "run b env i (Warnings m) w = warnings env i m w"
| "run b env i (Clearwarnings m) w = clearwarnings env i m w"
| "run b env i (Timeout m d r) w = timeout env i m d r w"
| "run b env i (Untimeout m) w = untimeout env i m w"
| "run b env i (Mute m d r) w = mute env i m d r w"
| "run b env i (Unmute m) w = unmute env i m w"
| "run b env i (Unwarn m) w = unwarn b env i m w"
| "run b env i Features w = features i w"
| "run b env i (Purge n) w = purge b env i n w"

text \<open>\<open>on_app_command_error\<close> for an exception that left a command: an ephemeral
  reply with the error's text. The permission checks that the decorators attach are made
  by the dispatcher before a handler runs; \<open>run\<close> starts where the handler does.\<close>

definition on_app_command_error :: "exn \<Rightarrow> world \<Rightarrow> world" where
  "on_app_command_error ex w = respond (Some (G Cross (ErrorText ex))) None True False w"

definition invoke :: "bot \<Rightarrow> env \<Rightarrow> interaction \<Rightarrow> command \<Rightarrow> world \<Rightarrow> world" where
  "invoke b env i c w =
     (case run b env i c w of Done u w' \<Rightarrow> w' | Raised ex w' \<Rightarrow> on_app_command_error ex w')"


section \<open>Observations on outcomes and worlds\<close>

fun raised_exn :: "'a outcome \<Rightarrow> exn option" where
  "raised_exn (Done a w) = None"
| "raised_exn (Raised ex w) = Some ex"

text \<open>The moderation actions among the platform calls: kick, ban, timeout, unban and
  purge, as opposed to fetching a user and to sending messages.\<close>

fun is_moderation_call :: "ext_call \<Rightarrow> bool" where
  "is_moderation_call (KickCall m r) = True"
| "is_moderation_call (BanCall m r) = True"
| "is_moderation_call (TimeoutCall m d r) = True"
| "is_moderation_call (UnbanCall u) = True"
| "is_moderation_call (PurgeCall n) = True"
| "is_moderation_call (FetchUserCall u) = False"
| "is_moderation_call (DirectMessage m e) = False"
| "is_moderation_call (ChannelSend c e) = False"

definition moderation_calls :: "world \<Rightarrow> ext_call list" where
  "moderation_calls w = filter is_moderation_call (calls w)"

text \<open>Nothing was asked of the platform and nothing was written to the store between
  \<open>w\<close> and \<open>w'\<close>.\<close>

definition untouched :: "world \<Rightarrow> world \<Rightarrow> bool" where
  "untouched w w' =
     (calls w' = calls w \<and> warning_rows w' = warning_rows w \<and> next_id w' = next_id w \<and>
      action_log w' = action_log w)"

text \<open>The store is the same in \<open>w\<close> and \<open>w'\<close>.\<close>

definition store_same :: "world \<Rightarrow> world \<Rightarrow> bool" where
  "store_same w w' =
     (warning_rows w' = warning_rows w \<and> next_id w' = next_id w \<and> action_log w' = action_log w)"

text \<open>The commands whose handler begins with a test of \<open>interaction.guild\<close>: all but
  features, which tests nothing, and mute and unmute, which do not get that far.\<close>

fun checks_guild :: "command \<Rightarrow> bool" where
  "checks_guild Features = False"
| "checks_guild (Mute m d r) = False"
| "checks_guild (Unmute m) = False"
| "checks_guild c = True"

text \<open>The commands whose guard also asks that the invoker be a \<open>discord.Member\<close>.\<close>

fun checks_member :: "command \<Rightarrow> bool" where
  "checks_member (Kick m r) = True"
| "checks_member (Ban m r) = True"
| "checks_member (Unban s) = True"
| "checks_member (Warn m r) = True"
| "checks_member (Timeout m d r) = True"
| "checks_member (Untimeout m) = True"
| "checks_member (Mute m d r) = False"
| "checks_member (Unmute m) = False"
| "checks_member (Warnings m) = False"
| "checks_member (Clearwarnings m) = False"
| "checks_member (Unwarn m) = False"
| "checks_member Features = False"
| "checks_member (Purge n) = False"

text \<open>
  The replies of the kind the error taxonomy calls TargetIneligible, for the command
  named \<open>verb\<close>: the target outranks or ties the moderator (kick, ban, warn, timeout) or
  the target is the server owner (kick, ban).
\<close>

definition target_ineligible :: "string \<Rightarrow> mtext \<Rightarrow> bool" where
  "target_ineligible verb m =
     (m = T (''You cannot '' @ verb @ '' someone with a higher or equal role.'')
      \<or> ((verb = ''kick'' \<or> verb = ''ban'') \<and> m = T (''You cannot '' @ verb @ '' the server owner.'')))"






section \<open>A small server for worked examples\<close>

definition demo_owner :: member where
  "demo_owner = \<lparr>mid = 1, mname = ''owner'', top_role = 5\<rparr>"

definition demo_mod :: member where
  "demo_mod = \<lparr>mid = 2, mname = ''mod'', top_role = 3\<rparr>"

definition demo_target :: member where
  "demo_target = \<lparr>mid = 7, mname = ''target'', top_role = 1\<rparr>"

definition demo_senior :: member where
  "demo_senior = \<lparr>mid = 8, mname = ''senior'', top_role = 4\<rparr>"

definition demo_guild :: guild where
  "demo_guild = \<lparr>gid = 100, gname = ''guild'', owner_id = 1, owner = Some demo_owner\<rparr>"

definition demo_i :: interaction where
  "demo_i = \<lparr>iguild = Some demo_guild, iuser = Member demo_mod, ichannel = Some (TextChannel 5)\<rparr>"

text \<open>Every call succeeds, the dialog is accepted, no log channel is configured.\<close>

definition demo_env :: env where
  "demo_env =
     \<lparr>defer_result = None, kick_result = None, ban_result = None, timeout_result = None,
      fetch_user_result = None, unban_result = None, purge_result = Inr 5, dm_result = None,
      view_value = Some True, original_response_result = None,
      settings_result = (\<lambda>g. Inr \<lparr>log_channel = None\<rparr>), get_channel = (\<lambda>c. True),
      channel_send_result = None, get_warnings_in_time = True, clear_warnings_in_time = True,
      now = ''2024-01-01''\<rparr>"

definition demo_admin :: member where
  "demo_admin = \<lparr>mid = 3, mname = ''admin'', top_role = 9\<rparr>"

text \<open>The same guild when the client does not have the owner's member object.\<close>

definition demo_guild_uncached :: guild where
  "demo_guild_uncached = demo_guild\<lparr>owner := None\<rparr>"

definition demo_admin_uncached_i :: interaction where
  "demo_admin_uncached_i =
     \<lparr>iguild = Some demo_guild_uncached, iuser = Member demo_admin, ichannel = Some (TextChannel 5)\<rparr>"

definition demo_mod_uncached_i :: interaction where
  "demo_mod_uncached_i =
     \<lparr>iguild = Some demo_guild_uncached, iuser = Member demo_mod, ichannel = Some (TextChannel 5)\<rparr>"

definition demo_admin_i :: interaction where
  "demo_admin_i = \<lparr>iguild = Some demo_guild, iuser = Member demo_admin, ichannel = Some (TextChannel 5)\<rparr>"

definition demo_env_ban_forbidden :: env where
  "demo_env_ban_forbidden = demo_env\<lparr>ban_result := Some Forbidden\<rparr>"

definition demo_world :: world where
  "demo_world =
     \<lparr>warning_rows = [], next_id = 1, action_log = [], calls = [], replies = [], is_done = False\<rparr>"

definition demo_ghost_i :: interaction where
  "demo_ghost_i = \<lparr>iguild = Some demo_guild, iuser = User 9 ''ghost'', ichannel = Some (TextChannel 5)\<rparr>"

definition demo_dm_i :: interaction where
  "demo_dm_i = \<lparr>iguild = None, iuser = User 9 ''ghost'', ichannel = None\<rparr>"

text \<open>The settings read of the modlog step raises.\<close>

definition demo_env_store_fails :: env where
  "demo_env_store_fails = demo_env\<lparr>settings_result := (\<lambda>g. Inl StoreError)\<rparr>"

text \<open>A log channel is configured and resolves, sending to it is refused.\<close>

definition demo_env_send_fails :: env where
  "demo_env_send_fails =
     demo_env\<lparr>settings_result := (\<lambda>g. Inr \<lparr>log_channel = Some 55\<rparr>),
              channel_send_result := Some Forbidden\<rparr>"


definition demo_row :: "int \<Rightarrow> warning" where
  "demo_row k = \<lparr>w_guild = 100, w_member = 7, w_id = Some k, w_warning_id = None,
                 w_underscore_id = None, w_mod_id = Some 2, w_reason = Some ''earlier'',
                 w_timestamp = ''2023-12-31''\<rparr>"

definition demo_world_one :: world where
  "demo_world_one = demo_world\<lparr>warning_rows := [demo_row 1], next_id := 2\<rparr>"

definition demo_world_two :: world where
  "demo_world_two = demo_world\<lparr>warning_rows := [demo_row 2, demo_row 1], next_id := 3\<rparr>"

definition demo_bot :: bot where
  "demo_bot =
     \<lparr>config = Some (PDict [(''moderation'',
          PDict [(''warn_threshold'', PInt 3), (''warn_threshold_action'', PStr ''timeout''),
                 (''warn_threshold_timeout_duration'', PInt 60)])]),
      has_delete_warning = False, has_remove_warning = True\<rparr>"


text \<open>Threshold 1 with action \<open>timeout\<close>, and no \<open>warn_threshold_timeout_duration\<close>.\<close>

definition demo_bot_no_duration :: bot where
  "demo_bot_no_duration =
     \<lparr>config = Some (PDict [(''moderation'',
          PDict [(''warn_threshold'', PInt 1), (''warn_threshold_action'', PStr ''timeout'')])]),
      has_delete_warning = False, has_remove_warning = True\<rparr>"

text \<open>The same with a duration that is not a number.\<close>

definition demo_bot_bad_duration :: bot where
  "demo_bot_bad_duration =
     \<lparr>config = Some (PDict [(''moderation'',
          PDict [(''warn_threshold'', PInt 1), (''warn_threshold_action'', PStr ''timeout''),
                 (''warn_threshold_timeout_duration'', PStr ''soon'')])]),
      has_delete_warning = False, has_remove_warning = True\<rparr>"

text \<open>A store with neither deletion method.\<close>

definition demo_bot_bare :: bot where
  "demo_bot_bare = demo_bot\<lparr>has_delete_warning := False, has_remove_warning := False\<rparr>"

section \<open>Basic facts\<close>










lemma calls_defer_reply: "calls (defer_reply env w) = calls w"
  by (simp add: defer_reply_def split: option.splits)

lemma untouched_reply_error: "untouched w (final_world (reply_error m w))"
  by (simp add: untouched_def reply_error_def respond_def)

lemma untouched_reply_context_error: "untouched w (final_world (reply_context_error w))"
  by (simp add: untouched_def reply_context_error_def respond_def)

lemma untouched_refl: "untouched w w"
  by (simp add: untouched_def)

lemma untouched_msg_edit: "untouched w (msg_edit c e w)"
  by (simp add: untouched_def msg_edit_def)

lemma untouched_ban_report: "untouched w (final_world (ban_report h m w))"
  by (simp add: ban_report_def untouched_msg_edit untouched_reply_error)

lemma untouched_moderation_calls: "untouched w w' \<Longrightarrow> moderation_calls w' = moderation_calls w"
  by (simp add: untouched_def moderation_calls_def)

lemma untouched_store_same: "untouched w w' \<Longrightarrow> store_same w w'"
  by (simp add: untouched_def store_same_def)

lemma catch_api_untouched:
  assumes "\<And>m w. untouched w (final_world (report m w))"
  shows "untouched (final_world r) (final_world (catch_api report a b r))"
proof (cases r)
  case (Done u w)
  then show ?thesis by (simp add: catch_api_def untouched_refl)
next
  case (Raised ex w)
  then show ?thesis using assms by (simp add: catch_api_def untouched_refl)
qed

lemma store_same_refl: "store_same w w"
  by (simp add: store_same_def)

lemma store_same_trans: "store_same a b \<Longrightarrow> store_same b c \<Longrightarrow> store_same a c"
  by (simp add: store_same_def)

lemma store_same_api: "store_same w (final_world (api c r w))"
  by (simp add: store_same_def api_def Let_def split: option.splits)

lemma store_same_and_then:
  assumes "store_same w (final_world r)" "\<And>u w1. store_same w1 (final_world (f u w1))"
  shows "store_same w (final_world (and_then r f))"
proof (cases r)
  case (Done u w1)
  then show ?thesis using assms store_same_trans by fastforce
next
  case (Raised ex w1)
  then show ?thesis using assms by simp
qed

lemma store_same_catch_forbidden:
  "store_same w (final_world r) \<Longrightarrow> store_same w (final_world (catch_forbidden msg r))"
  by (cases r) (simp_all add: catch_forbidden_def store_same_def followup_send_def)

lemma store_same_announce: "store_same w (final_world (announce m what t w))"
  by (simp add: announce_def store_same_def followup_send_def)

lemma post_modlog_store:
  "warning_rows (final_world (post_modlog env g e w)) = warning_rows w
   \<and> next_id (final_world (post_modlog env g e w)) = next_id w
   \<and> action_log (final_world (post_modlog env g e w)) = action_log w
   \<and> moderation_calls (final_world (post_modlog env g e w)) = moderation_calls w"
  by (simp add: post_modlog_def swallow_def api_def moderation_calls_def Let_def
      split: sum.splits option.splits)

lemma store_same_timeout_branch:
  "store_same w (final_world (case timedelta_minutes duration of
                          Inl ex \<Rightarrow> Raised ex w
                        | Inr minutes \<Rightarrow>
                            and_then
                              (api (TimeoutCall (mid member) (Some minutes) (reached warn_threshold))
                                 (timeout_result env) w)
                              (\<lambda>u. announce member ''timed out'' warn_threshold)))"
  by (cases "timedelta_minutes duration")
     (simp_all add: store_same_refl store_same_and_then store_same_api store_same_announce)

lemma store_same_warn_auto_action:
  "store_same w (final_world (warn_auto_action b env member c w))"
proof (cases "moderation_cfg b")
  case (Inl ex)
  then show ?thesis by (simp add: warn_auto_action_def store_same_refl)
next
  case (Inr mod_cfg)
  then show ?thesis
    by (simp add: warn_auto_action_def Let_def store_same_refl store_same_catch_forbidden
        store_same_timeout_branch store_same_and_then store_same_api store_same_announce
        split: sum.splits)
qed

lemma demo_context: "iguild demo_i = Some demo_guild \<and> iuser demo_i = Member demo_mod"
  by (simp add: demo_i_def)

section \<open>unban: cleaning of the identifier\<close>

lemma unban_reject:
  assumes "iguild i = Some g" "iuser i = Member author" "\<not> py_isdigit (clean_user_id s)"
  shows "unban env i s w = reply_error (T ''Please provide a valid user ID.'') w"
  using assms by (simp add: unban_def)

lemma unban_accept:
  assumes "iguild i = Some g" "iuser i = Member author" "py_isdigit (clean_user_id s)"
    "py_int_digits (clean_user_id s) = Inr uid"
  shows "\<exists>rest. calls (final_world (unban env i s w)) = calls w @ FetchUserCall uid # rest"
proof (cases "fetch_user_result env")
  case (Some ex)
  then show ?thesis using assms
    by (simp add: unban_def Let_def catch_unban_def api_def reply_error_def respond_def calls_defer_reply)
next
  case None
  note f = this
  show ?thesis
  proof (cases "unban_result env")
    case (Some ex)
    then show ?thesis using assms f
      by (simp add: unban_def Let_def catch_unban_def api_def reply_error_def respond_def calls_defer_reply)
  next
    case None
    then show ?thesis using assms f
      by (simp add: unban_def Let_def catch_unban_def api_def reply_error_def respond_def calls_defer_reply
          log_action_def post_modlog_def swallow_def split: sum.splits option.splits)
  qed
qed


lemma clean_plain: "clean_user_id ''123456789'' = ''123456789''"
  by (simp add: clean_user_id_def py_strip_def py_isspace_def)

lemma clean_mention: "clean_user_id ''<@123456789>'' = ''123456789''"
  by (simp add: clean_user_id_def py_strip_def py_isspace_def)

lemma clean_nick_mention: "clean_user_id ''<@!123456789>'' = ''123456789''"
  by (simp add: clean_user_id_def py_strip_def py_isspace_def)

lemma clean_abc: "clean_user_id ''abc'' = ''abc''"
  by (simp add: clean_user_id_def py_strip_def py_isspace_def)


lemma digits_id: "py_isdigit ''123456789'' \<and> py_int_digits ''123456789'' = Inr 123456789"
  by (simp add: py_isdigit_def isdigit_char_def py_int_digits_def ascii_digit_def digit_val_def)


lemma abc_not_digits: "\<not> py_isdigit ''abc''"
  by (simp add: py_isdigit_def isdigit_char_def ascii_digit_def)

text \<open>
  C9. In a server, invoked by a member: the arguments \<open>123456789\<close>, \<open><@123456789>\<close>
  and \<open><@!123456789>\<close> are all cleaned to \<open>123456789\<close>, which reads as the number
  123456789, and unban goes on to fetch that user, its first call to the platform. The
  argument \<open>abc\<close> is answered with the ephemeral error \<open>Please provide a valid user ID.\<close>
  and nothing is asked of the platform or written to the store.
\<close>

theorem unban_input_cleaning:
  assumes "iguild i = Some g" and "iuser i = Member author"
  shows "clean_user_id ''123456789'' = ''123456789''
       \<and> clean_user_id ''<@123456789>'' = ''123456789''
       \<and> clean_user_id ''<@!123456789>'' = ''123456789''
       \<and> py_int_digits ''123456789'' = Inr 123456789
       \<and> (\<exists>rest. calls (final_world (unban env i ''123456789'' w)) = calls w @ FetchUserCall 123456789 # rest)
       \<and> (\<exists>rest. calls (final_world (unban env i ''<@123456789>'' w)) = calls w @ FetchUserCall 123456789 # rest)
       \<and> (\<exists>rest. calls (final_world (unban env i ''<@!123456789>'' w)) = calls w @ FetchUserCall 123456789 # rest)
       \<and> unban env i ''abc'' w = reply_error (T ''Please provide a valid user ID.'') w
       \<and> untouched w (final_world (unban env i ''abc'' w))"
proof -
  have a: "\<exists>rest. calls (final_world (unban env i ''123456789'' w)) = calls w @ FetchUserCall 123456789 # rest"
    by (rule unban_accept[OF assms]) (simp_all only: clean_plain digits_id)
  have b: "\<exists>rest. calls (final_world (unban env i ''<@123456789>'' w)) = calls w @ FetchUserCall 123456789 # rest"
    by (rule unban_accept[OF assms]) (simp_all only: clean_mention digits_id)
  have c: "\<exists>rest. calls (final_world (unban env i ''<@!123456789>'' w)) = calls w @ FetchUserCall 123456789 # rest"
    by (rule unban_accept[OF assms]) (simp_all only: clean_nick_mention digits_id)
  have d: "unban env i ''abc'' w = reply_error (T ''Please provide a valid user ID.'') w"
    by (rule unban_reject[OF assms]) (simp only: clean_abc abc_not_digits not_False_eq_True)
  have e: "untouched w (final_world (unban env i ''abc'' w))"
    by (simp only: d untouched_reply_error)
  show ?thesis
    using a b c d e clean_plain clean_mention clean_nick_mention digits_id by blast
qed

theorem unban_input_cleaning_witness:
  "iguild demo_i = Some demo_guild \<and> iuser demo_i = Member demo_mod
   \<and> (\<exists>rest. calls (final_world (unban demo_env demo_i ''<@!123456789>'' demo_world))
                = calls demo_world @ FetchUserCall 123456789 # rest)
   \<and> unban demo_env demo_i ''abc'' demo_world
        = reply_error (T ''Please provide a valid user ID.'') demo_world"
proof -
  have g: "iguild demo_i = Some demo_guild" and u: "iuser demo_i = Member demo_mod"
    by (simp_all add: demo_i_def)
  show ?thesis
    using g u unban_input_cleaning[OF g u, of demo_env demo_world] by blast
qed












section \<open>The hierarchy guard and the owner guard\<close>

lemma kick_owner:
  assumes "iguild i = Some g" "iuser i = Member author" "is_guild_owner g member"
  shows "kick env i member reason w = reply_error (T ''You cannot kick the server owner.'') w"
  using assms by (simp add: kick_def)

lemma ban_owner:
  assumes "iguild i = Some g" "iuser i = Member author" "is_guild_owner g member"
  shows "ban env i member reason w = reply_error (T ''You cannot ban the server owner.'') w"
  using assms by (simp add: ban_def)

lemma kick_hierarchy:
  assumes "iguild i = Some g" "iuser i = Member author" "\<not> is_guild_owner g member"
    "top_role member \<ge> top_role author" "mid author \<noteq> owner_id g"
  shows "kick env i member reason w = reply_error (T ''You cannot kick someone with a higher or equal role.'') w"
  using assms by (simp add: kick_def)

lemma ban_hierarchy:
  assumes "iguild i = Some g" "iuser i = Member author" "\<not> is_guild_owner g member"
    "top_role member \<ge> top_role author" "mid author \<noteq> owner_id g"
  shows "ban env i member reason w = reply_error (T ''You cannot ban someone with a higher or equal role.'') w"
  using assms by (simp add: ban_def)

lemma warn_hierarchy:
  assumes "iguild i = Some g" "iuser i = Member author"
    "top_role member \<ge> top_role author" "mid author \<noteq> owner_id g"
  shows "warn b env i member reason w = reply_error (T ''You cannot warn someone with a higher or equal role.'') w"
  using assms by (simp add: warn_def)

lemma timeout_hierarchy:
  assumes "iguild i = Some g" "iuser i = Member author"
    "top_role member \<ge> top_role author" "mid author \<noteq> owner_id g"
  shows "timeout env i member duration reason w = reply_error (T ''You cannot timeout someone with a higher or equal role.'') w"
  using assms by (simp add: timeout_def)

lemma target_ineligible_messages:
  "target_ineligible ''kick'' (T ''You cannot kick the server owner.'')"
  "target_ineligible ''kick'' (T ''You cannot kick someone with a higher or equal role.'')"
  "target_ineligible ''ban'' (T ''You cannot ban the server owner.'')"
  "target_ineligible ''ban'' (T ''You cannot ban someone with a higher or equal role.'')"
  "target_ineligible ''warn'' (T ''You cannot warn someone with a higher or equal role.'')"
  "target_ineligible ''timeout'' (T ''You cannot timeout someone with a higher or equal role.'')"
  by (simp_all add: target_ineligible_def)

text \<open>
  C1. In a server, invoked by a member who is not the guild owner, against a target
  whose highest role is at least the invoker's: kick, ban, warn and timeout each end
  with one ephemeral error reply of the kind TargetIneligible, and ask nothing of the
  platform and write nothing to the store (no warning record, no action-log entry). The
  reply of warn and timeout is their hierarchy message; that of kick and ban is their
  hierarchy message unless \<open>member == guild.owner\<close>, which is tested first and answered
  with the owner message, of the same kind.
\<close>

theorem hierarchy_guard:
  assumes "iguild i = Some g" and "iuser i = Member author"
    and "top_role member \<ge> top_role author" and "mid author \<noteq> owner_id g"
  shows "kick env i member reason w =
           reply_error (T (if is_guild_owner g member then ''You cannot kick the server owner.''
                           else ''You cannot kick someone with a higher or equal role.'')) w
       \<and> ban env i member reason w =
           reply_error (T (if is_guild_owner g member then ''You cannot ban the server owner.''
                           else ''You cannot ban someone with a higher or equal role.'')) w
       \<and> warn b env i member reason w =
           reply_error (T ''You cannot warn someone with a higher or equal role.'') w
       \<and> timeout env i member duration reason w =
           reply_error (T ''You cannot timeout someone with a higher or equal role.'') w
       \<and> (\<exists>m. target_ineligible ''kick'' m \<and> kick env i member reason w = reply_error m w)
       \<and> (\<exists>m. target_ineligible ''ban'' m \<and> ban env i member reason w = reply_error m w)
       \<and> (\<exists>m. target_ineligible ''warn'' m \<and> warn b env i member reason w = reply_error m w)
       \<and> (\<exists>m. target_ineligible ''timeout'' m \<and>
                timeout env i member duration reason w = reply_error m w)
       \<and> untouched w (final_world (kick env i member reason w))
       \<and> untouched w (final_world (ban env i member reason w))
       \<and> untouched w (final_world (warn b env i member reason w))
       \<and> untouched w (final_world (timeout env i member duration reason w))"
proof -
  have k: "kick env i member reason w =
           reply_error (T (if is_guild_owner g member then ''You cannot kick the server owner.''
                           else ''You cannot kick someone with a higher or equal role.'')) w"
    using kick_owner[OF assms(1,2)] kick_hierarchy[OF assms(1,2) _ assms(3,4)] by simp
  have b: "ban env i member reason w =
           reply_error (T (if is_guild_owner g member then ''You cannot ban the server owner.''
                           else ''You cannot ban someone with a higher or equal role.'')) w"
    using ban_owner[OF assms(1,2)] ban_hierarchy[OF assms(1,2) _ assms(3,4)] by simp
  note wn = warn_hierarchy[OF assms, of b env reason w]
  note t = timeout_hierarchy[OF assms, of env duration reason w]
  have km: "\<exists>m. target_ineligible ''kick'' m \<and> kick env i member reason w = reply_error m w"
    using k target_ineligible_messages(1,2) by (cases "is_guild_owner g member") auto
  have bm: "\<exists>m. target_ineligible ''ban'' m \<and> ban env i member reason w = reply_error m w"
    using b target_ineligible_messages(3,4) by (cases "is_guild_owner g member") auto
  have wm: "\<exists>m. target_ineligible ''warn'' m \<and> warn b env i member reason w = reply_error m w"
    using wn target_ineligible_messages(5) by blast
  have tm: "\<exists>m. target_ineligible ''timeout'' m \<and>
                timeout env i member duration reason w = reply_error m w"
    using t target_ineligible_messages(6) by blast
  have u: "untouched w (final_world (kick env i member reason w))"
    "untouched w (final_world (ban env i member reason w))"
    "untouched w (final_world (warn b env i member reason w))"
    "untouched w (final_world (timeout env i member duration reason w))"
    by (simp_all only: k b wn t untouched_reply_error)
  show ?thesis
    using k b wn t km bm wm tm u by blast
qed

theorem hierarchy_guard_witness:
  "iguild demo_i = Some demo_guild \<and> iuser demo_i = Member demo_mod
   \<and> top_role demo_senior \<ge> top_role demo_mod \<and> top_role demo_owner \<ge> top_role demo_mod
   \<and> mid demo_mod \<noteq> owner_id demo_guild
   \<and> kick demo_env demo_i demo_senior ''spam'' demo_world =
        reply_error (T ''You cannot kick someone with a higher or equal role.'') demo_world
   \<and> kick demo_env demo_i demo_owner ''spam'' demo_world =
        reply_error (T ''You cannot kick the server owner.'') demo_world
   \<and> untouched demo_world (final_world (kick demo_env demo_i demo_owner ''spam'' demo_world))
   \<and> untouched demo_world (final_world (warn demo_bot demo_env demo_i demo_senior ''spam'' demo_world))"
proof -
  have g: "iguild demo_i = Some demo_guild" and u: "iuser demo_i = Member demo_mod"
    by (simp_all add: demo_i_def)
  have r: "top_role demo_senior \<ge> top_role demo_mod"
    by (simp add: demo_senior_def demo_mod_def)
  have r': "top_role demo_owner \<ge> top_role demo_mod"
    by (simp add: demo_owner_def demo_mod_def)
  have o: "mid demo_mod \<noteq> owner_id demo_guild"
    by (simp add: demo_mod_def demo_guild_def)
  have n: "\<not> is_guild_owner demo_guild demo_senior"
    by (simp add: is_guild_owner_def demo_guild_def demo_senior_def demo_owner_def)
  have y: "is_guild_owner demo_guild demo_owner"
    by (simp add: is_guild_owner_def demo_guild_def)
  show ?thesis
    using g u r r' o n y
      hierarchy_guard[OF g u r o, where env = demo_env and reason = "''spam''" and w = demo_world
        and b = demo_bot and duration = 10]
      hierarchy_guard[OF g u r' o, where env = demo_env and reason = "''spam''" and w = demo_world
        and b = demo_bot and duration = 10]
    by (simp add: untouched_reply_error)
qed

section \<open>ban: the confirmation\<close>


lemma ban_declined:
  assumes "iguild i = Some g" "iuser i = Member author" "\<not> is_guild_owner g member"
    "\<not> (top_role member \<ge> top_role author \<and> mid author \<noteq> owner_id g)"
    "view_value env \<noteq> Some True"
  shows "untouched w (final_world (ban env i member reason w))"
proof -
  from assms(4) have f: "(top_role author \<le> top_role member \<and> mid author \<noteq> owner_id g) = False"
    by simp
  from assms(1,2,3,5) show ?thesis
    by (simp add: ban_def Let_def untouched_def respond_def msg_edit_def f)
qed

lemma ban_accepted:
  assumes "iguild i = Some g" "iuser i = Member author" "\<not> is_guild_owner g member"
    "\<not> (top_role member \<ge> top_role author \<and> mid author \<noteq> owner_id g)"
    "view_value env = Some True"
  shows "ban env i member reason w =
     catch_api (ban_report (original_response_result env = None))
       (G Cross (T ''I don't have permission to ban this member.''))
       (G Cross (T ''Ban failed due to a Discord API error.''))
       (ban_body env g author member reason (original_response_result env = None)
          (respond (Some (T (''Are you sure you want to ban '' @ mention (mid member) @ ''?'')))
                            None True True w))"
proof -
  from assms(4) have f: "(top_role author \<le> top_role member \<and> mid author \<noteq> owner_id g) = False"
    by simp
  from assms(1,2,3,5) show ?thesis
    by (simp add: ban_def Let_def f)
qed

lemma ban_body_calls:
  "moderation_calls (final_world (ban_body env g author member reason h w)) =
     moderation_calls w @ [BanCall (mid member) (reason @ by_line ''Banned'' author)]"
proof (cases "ban_result env")
  case None
  then show ?thesis
    using post_modlog_store[of env g]
    by (simp add: ban_body_def api_def Let_def moderation_calls_def log_action_def msg_edit_def respond_def)
next
  case (Some ex)
  then show ?thesis by (simp add: ban_body_def api_def moderation_calls_def)
qed

lemma ban_body_log:
  "action_log (final_world (ban_body env g author member reason h w)) =
     (if ban_result env = None
      then action_log w @ [\<lparr>log_guild = gid g, log_name = ''ban'', log_target = mid member,
                            log_moderator = mid author, log_reason = Some reason\<rparr>]
      else action_log w)"
proof (cases "ban_result env")
  case None
  then show ?thesis
    using post_modlog_store[of env g]
    by (simp add: ban_body_def api_def Let_def log_action_def msg_edit_def respond_def)
next
  case (Some ex)
  then show ?thesis by (simp add: ban_body_def api_def)
qed

lemma ban_body_rows:
  "warning_rows (final_world (ban_body env g author member reason h w)) = warning_rows w"
proof (cases "ban_result env")
  case None
  then show ?thesis
    using post_modlog_store[of env g]
    by (simp add: ban_body_def api_def Let_def log_action_def msg_edit_def respond_def)
next
  case (Some ex)
  then show ?thesis by (simp add: ban_body_def api_def)
qed

lemma ban_accepted_effects:
  assumes "iguild i = Some g" "iuser i = Member author" "\<not> is_guild_owner g member"
    "\<not> (top_role member \<ge> top_role author \<and> mid author \<noteq> owner_id g)"
    "view_value env = Some True"
  shows "moderation_calls (final_world (ban env i member reason w)) =
           moderation_calls w @ [BanCall (mid member) (reason @ by_line ''Banned'' author)]"
    and "action_log (final_world (ban env i member reason w)) =
           (if ban_result env = None
            then action_log w @ [\<lparr>log_guild = gid g, log_name = ''ban'', log_target = mid member,
                                  log_moderator = mid author, log_reason = Some reason\<rparr>]
            else action_log w)"
    and "warning_rows (final_world (ban env i member reason w)) = warning_rows w"
proof -
  let ?w1 = "respond (Some (T (''Are you sure you want to ban '' @ mention (mid member) @ ''?'')))
                            None True True w"
  let ?body = "ban_body env g author member reason (original_response_result env = None) ?w1"
  have u: "untouched (final_world ?body) (final_world (ban env i member reason w))"
    unfolding ban_accepted[OF assms]
    by (rule catch_api_untouched) (rule untouched_ban_report)
  have w1: "moderation_calls ?w1 = moderation_calls w" "action_log ?w1 = action_log w"
    "warning_rows ?w1 = warning_rows w"
    by (simp_all add: respond_def moderation_calls_def)
  show "moderation_calls (final_world (ban env i member reason w)) =
           moderation_calls w @ [BanCall (mid member) (reason @ by_line ''Banned'' author)]"
    using untouched_moderation_calls[OF u] ban_body_calls[of env g author member reason _ ?w1] w1
    by simp
  show "action_log (final_world (ban env i member reason w)) =
           (if ban_result env = None
            then action_log w @ [\<lparr>log_guild = gid g, log_name = ''ban'', log_target = mid member,
                                  log_moderator = mid author, log_reason = Some reason\<rparr>]
            else action_log w)"
    using u ban_body_log[of env g author member reason _ ?w1] w1
    by (simp add: untouched_def)
  show "warning_rows (final_world (ban env i member reason w)) = warning_rows w"
    using u ban_body_rows[of env g author member reason _ ?w1] w1
    by (simp add: untouched_def)
qed

text \<open>
  C4, as the code has it. For a ban that passes the guards: when the confirmation is
  declined or times out, no call is made to the platform and nothing is written to the
  store. When it is accepted, exactly one ban call is issued; exactly one action-log
  entry, with action \<open>ban\<close>, is written when that call succeeds, and none when the call
  raises.
\<close>

theorem ban_confirmation:
  assumes "iguild i = Some g" and "iuser i = Member author"
    and "\<not> is_guild_owner g member"
    and "\<not> (top_role member \<ge> top_role author \<and> mid author \<noteq> owner_id g)"
  shows "(view_value env \<noteq> Some True \<longrightarrow> untouched w (final_world (ban env i member reason w)))
       \<and> (view_value env = Some True \<longrightarrow>
            moderation_calls (final_world (ban env i member reason w)) =
              moderation_calls w @ [BanCall (mid member) (reason @ by_line ''Banned'' author)]
          \<and> warning_rows (final_world (ban env i member reason w)) = warning_rows w
          \<and> action_log (final_world (ban env i member reason w)) =
              (if ban_result env = None
               then action_log w @ [\<lparr>log_guild = gid g, log_name = ''ban'', log_target = mid member,
                                     log_moderator = mid author, log_reason = Some reason\<rparr>]
               else action_log w))"
  using ban_declined[OF assms] ban_accepted_effects[OF assms] by blast

lemma demo_target_passes:
  "\<not> is_guild_owner demo_guild demo_target
   \<and> \<not> (top_role demo_target \<ge> top_role demo_mod \<and> mid demo_mod \<noteq> owner_id demo_guild)"
  by (simp add: is_guild_owner_def demo_guild_def demo_target_def demo_owner_def demo_mod_def)

lemma str_nat_2: "str_nat 2 = ''2''"
  by code_simp

lemma str_nat_7: "str_nat 7 = ''7''"
  by code_simp

theorem ban_confirmation_witness:
  "iguild demo_i = Some demo_guild \<and> iuser demo_i = Member demo_mod
   \<and> \<not> is_guild_owner demo_guild demo_target
   \<and> \<not> (top_role demo_target \<ge> top_role demo_mod \<and> mid demo_mod \<noteq> owner_id demo_guild)
   \<and> view_value demo_env = Some True \<and> ban_result demo_env = None
   \<and> moderation_calls (final_world (ban demo_env demo_i demo_target ''spam'' demo_world)) =
        [BanCall 7 ''spam | Banned by mod (2)'']
   \<and> action_log (final_world (ban demo_env demo_i demo_target ''spam'' demo_world)) =
        [\<lparr>log_guild = 100, log_name = ''ban'', log_target = 7, log_moderator = 2,
          log_reason = Some ''spam''\<rparr>]"
proof -
  have g: "iguild demo_i = Some demo_guild" and u: "iuser demo_i = Member demo_mod"
    by (simp_all add: demo_i_def)
  have o: "\<not> is_guild_owner demo_guild demo_target"
    and h: "\<not> (top_role demo_target \<ge> top_role demo_mod \<and> mid demo_mod \<noteq> owner_id demo_guild)"
    using demo_target_passes by blast+
  have v: "view_value demo_env = Some True" "ban_result demo_env = None"
    by (simp_all add: demo_env_def)
  show ?thesis
    using g u o h v ban_confirmation[OF g u o h, of demo_env demo_world "''spam''"]
    by (simp add: demo_world_def moderation_calls_def by_line_def demo_target_def demo_mod_def
        demo_guild_def str_nat_2)
qed

text \<open>
  C4 as stated fails when the platform refuses the ban: the confirmation is accepted and
  one ban call is issued, but no action-log entry is written.
\<close>

theorem ban_confirmation_counterexample:
  "iguild demo_i = Some demo_guild \<and> iuser demo_i = Member demo_mod
   \<and> \<not> is_guild_owner demo_guild demo_target
   \<and> \<not> (top_role demo_target \<ge> top_role demo_mod \<and> mid demo_mod \<noteq> owner_id demo_guild)
   \<and> view_value demo_env_ban_forbidden = Some True
   \<and> moderation_calls (final_world (ban demo_env_ban_forbidden demo_i demo_target ''spam'' demo_world)) =
        [BanCall 7 ''spam | Banned by mod (2)'']
   \<and> action_log (final_world (ban demo_env_ban_forbidden demo_i demo_target ''spam'' demo_world)) = []"
proof -
  have g: "iguild demo_i = Some demo_guild" and u: "iuser demo_i = Member demo_mod"
    by (simp_all add: demo_i_def)
  have o: "\<not> is_guild_owner demo_guild demo_target"
    and h: "\<not> (top_role demo_target \<ge> top_role demo_mod \<and> mid demo_mod \<noteq> owner_id demo_guild)"
    using demo_target_passes by blast+
  have v: "view_value demo_env_ban_forbidden = Some True"
    "ban_result demo_env_ban_forbidden = Some Forbidden"
    by (simp_all add: demo_env_ban_forbidden_def demo_env_def)
  show ?thesis
    using g u o h v ban_accepted_effects[OF g u o h v(1), of "''spam''" demo_world]
    by (simp add: demo_world_def moderation_calls_def by_line_def demo_target_def demo_mod_def
        demo_guild_def str_nat_2)
qed


section \<open>warn and timeout past the guard\<close>


lemma store_same_post_modlog: "store_same w (final_world (post_modlog env g e w))"
  using post_modlog_store[of env g e w] by (simp add: store_same_def)

lemma store_same_swallow_api: "store_same w (swallow (api c r w))"
  by (simp add: store_same_def swallow_def api_def Let_def split: option.splits)

lemma store_same_respond: "store_same w (respond c e eph v w)"
  by (simp add: store_same_def respond_def)

lemma post_modlog_calls_ext: "\<exists>rest. calls (final_world (post_modlog env g e w)) = calls w @ rest"
  by (simp add: post_modlog_def swallow_def api_def Let_def split: sum.splits option.splits)

text \<open>The world after the two store writes of warn.\<close>

lemma warn_proceeds_store:
  assumes "iguild i = Some g" "iuser i = Member author"
    "\<not> (top_role member \<ge> top_role author \<and> mid author \<noteq> owner_id g)"
  shows "store_same
           (log_action (gid g) ''warn'' (mid member) (mid author) (Some reason)
              (add_warning (gid g) (mid member) (mid author) reason (now env) w))
           (final_world (warn b env i member reason w))"
proof -
  from assms(3) have f: "(top_role author \<le> top_role member \<and> mid author \<noteq> owner_id g) = False"
    by simp
  let ?w3 = "log_action (gid g) ''warn'' (mid member) (mid author) (Some reason)
              (add_warning (gid g) (mid member) (mid author) reason (now env) (defer_reply env w))"
  have d: "store_same (log_action (gid g) ''warn'' (mid member) (mid author) (Some reason)
              (add_warning (gid g) (mid member) (mid author) reason (now env) w)) ?w3"
    by (simp add: store_same_def log_action_def add_warning_def defer_reply_def split: option.splits)
  have inner: "\<And>c dm u w5. store_same w5
      (final_world (warn_auto_action b env member c (swallow (api (DirectMessage (mid member) dm) (dm_result env) w5))))"
    by (rule store_same_trans[OF store_same_swallow_api store_same_warn_auto_action])
  have "store_same ?w3 (final_world (warn b env i member reason w))"
    using assms(1,2)
    apply (simp add: warn_def f Let_def)
    apply (rule store_same_trans[OF store_same_respond])
    apply (rule store_same_and_then)
     apply (rule store_same_post_modlog)
    apply (rule inner)
    done
  with d show ?thesis by (rule store_same_trans)
qed

lemma warn_proceeds_differs:
  assumes "iguild i = Some g" "iuser i = Member author"
    "\<not> (top_role member \<ge> top_role author \<and> mid author \<noteq> owner_id g)"
  shows "warn b env i member reason w \<noteq> reply_error m w"
proof
  assume e: "warn b env i member reason w = reply_error m w"
  have "next_id (final_world (warn b env i member reason w)) = next_id w + 1"
    using warn_proceeds_store[OF assms, of reason env w b]
    by (simp add: store_same_def log_action_def add_warning_def)
  moreover have "next_id (final_world (reply_error m w)) = next_id w"
    by (simp add: reply_error_def respond_def)
  ultimately show False using e by simp
qed

lemma post_modlog_calls_after:
  "calls w4 = pre @ [x] \<Longrightarrow> \<exists>rest. calls (final_world (post_modlog env g e w4)) = pre @ x # rest"
  using post_modlog_calls_ext[of env g e w4] by auto

lemma timeout_body_calls:
  "raised_exn (timeout_body env g author member duration reason w) = Some OverflowError
   \<or> (\<exists>rest. calls (final_world (timeout_body env g author member duration reason w)) =
         calls w @ TimeoutCall (mid member) (Some duration) (reason @ by_line ''Timed out'' author) # rest)"
proof (cases "timedelta_minutes_int duration")
  case (Inl ex)
  then have "ex = OverflowError"
    by (simp add: timedelta_minutes_int_def split: if_splits)
  with Inl show ?thesis by (simp add: timeout_body_def)
next
  case (Inr minutes)
  then have m: "minutes = duration"
    by (simp add: timedelta_minutes_int_def split: if_splits)
  show ?thesis
  proof (cases "timeout_result env")
    case (Some ex)
    with Inr m show ?thesis by (simp add: timeout_body_def api_def)
  next
    case None
    have "\<exists>rest. calls (final_world (timeout_body env g author member duration reason w)) =
         calls w @ TimeoutCall (mid member) (Some duration) (reason @ by_line ''Timed out'' author) # rest"
      using None Inr m
      apply (simp add: timeout_body_def api_def Let_def)
      apply (rule post_modlog_calls_after)
      apply (simp add: respond_def log_action_def)
      done
    then show ?thesis by blast
  qed
qed

lemma timeout_proceeds_differs:
  assumes "iguild i = Some g" "iuser i = Member author"
    "\<not> (top_role member \<ge> top_role author \<and> mid author \<noteq> owner_id g)"
  shows "timeout env i member duration reason w \<noteq> reply_error m w"
proof
  assume e: "timeout env i member duration reason w = reply_error m w"
  from assms(3) have f: "(top_role author \<le> top_role member \<and> mid author \<noteq> owner_id g) = False"
    by simp
  let ?body = "timeout_body env g author member duration reason (defer_reply env w)"
  have t: "timeout env i member duration reason w =
        catch_api reply_error (T ''I don't have permission to timeout this member.'')
          (T ''Timeout failed due to a Discord API error.'') ?body"
    using assms(1,2) by (simp add: timeout_def f)
  have c: "calls (final_world (timeout env i member duration reason w)) = calls (final_world ?body)"
    using catch_api_untouched[of reply_error, OF untouched_reply_error] 
    by (simp add: t untouched_def)
  have r: "calls (final_world (reply_error m w)) = calls w"
    by (simp add: reply_error_def respond_def)
  from timeout_body_calls[of env g author member duration reason "defer_reply env w"]
  show False
  proof
    assume o: "raised_exn ?body = Some OverflowError"
    then obtain w' where "?body = Raised OverflowError w'"
      by (cases ?body) simp_all
    then have "timeout env i member duration reason w = Raised OverflowError w'"
      by (simp add: t catch_api_def is_HTTPException_def)
    with e show False by (simp add: reply_error_def)
  next
    assume "\<exists>rest. calls (final_world ?body) =
         calls (defer_reply env w) @ TimeoutCall (mid member) (Some duration) (reason @ by_line ''Timed out'' author) # rest"
    with c r e show False by (auto simp: calls_defer_reply)
  qed
qed

lemma post_modlog_ignores_owner: "post_modlog env (g\<lparr>owner := x\<rparr>) = post_modlog env g"
  by (rule ext)+ (simp add: post_modlog_def)

lemma timeout_body_ignores_owner:
  "timeout_body env (g\<lparr>owner := x\<rparr>) author member duration reason w =
   timeout_body env g author member duration reason w"
  by (simp add: timeout_body_def post_modlog_ignores_owner Let_def split: sum.splits)

lemma warn_ignores_owner:
  assumes "iguild i = Some g"
  shows "warn b env (i\<lparr>iguild := Some (g\<lparr>owner := x\<rparr>)\<rparr>) member reason w = warn b env i member reason w"
  using assms
  by (cases "iuser i") (simp_all add: warn_def post_modlog_ignores_owner dm_embed_def Let_def)

lemma timeout_ignores_owner:
  assumes "iguild i = Some g"
  shows "timeout env (i\<lparr>iguild := Some (g\<lparr>owner := x\<rparr>)\<rparr>) member duration reason w =
         timeout env i member duration reason w"
  using assms
  by (cases "iuser i") (simp_all add: timeout_def timeout_body_ignores_owner)

text \<open>
  Where \<open>member == guild.owner\<close> holds, kick and ban reject with their owner message
  whatever the ranks; warn and timeout make no owner check: they reject exactly when the
  role comparison says so, and their result does not depend on who \<open>guild.owner\<close> is.
\<close>

lemma owner_guard_fires:
  assumes "iguild i = Some g" and "iuser i = Member author" and "is_guild_owner g member"
  shows "kick env i member reason w = reply_error (T ''You cannot kick the server owner.'') w
       \<and> ban env i member reason w = reply_error (T ''You cannot ban the server owner.'') w
       \<and> ((\<exists>m. warn b env i member reason w = reply_error m w)
            \<longleftrightarrow> top_role member \<ge> top_role author \<and> mid author \<noteq> owner_id g)
       \<and> ((\<exists>m. timeout env i member duration reason w = reply_error m w)
            \<longleftrightarrow> top_role member \<ge> top_role author \<and> mid author \<noteq> owner_id g)
       \<and> warn b env (i\<lparr>iguild := Some (g\<lparr>owner := x\<rparr>)\<rparr>) member reason w = warn b env i member reason w
       \<and> timeout env (i\<lparr>iguild := Some (g\<lparr>owner := x\<rparr>)\<rparr>) member duration reason w =
           timeout env i member duration reason w"
proof -
  have w: "(\<exists>m. warn b env i member reason w = reply_error m w)
            \<longleftrightarrow> top_role member \<ge> top_role author \<and> mid author \<noteq> owner_id g"
    using warn_hierarchy[OF assms(1,2), of member b env reason w]
      warn_proceeds_differs[OF assms(1,2), of member b env reason w] by blast
  have t: "(\<exists>m. timeout env i member duration reason w = reply_error m w)
            \<longleftrightarrow> top_role member \<ge> top_role author \<and> mid author \<noteq> owner_id g"
    using timeout_hierarchy[OF assms(1,2), of member env duration reason w]
      timeout_proceeds_differs[OF assms(1,2), of member env duration reason w] by blast
  show ?thesis
    using kick_owner[OF assms] ban_owner[OF assms] w t
      warn_ignores_owner[OF assms(1)] timeout_ignores_owner[OF assms(1)]
    by blast
qed

text \<open>
  C2, at the input where the code departs from it. The owner guard of kick and ban
  compares the target with \<open>guild.owner\<close>, the owner's member object as the client has
  it. In a guild where the client does not have it (\<open>guild.owner\<close> is \<open>None\<close>), a target
  who is the owner by id is not recognised: invoked by a member who outranks the target,
  kick goes on to issue the kick call and to log it, and ban, once confirmed, the ban
  call; invoked by a member of lower rank, kick answers with the hierarchy message, not
  the owner message. With the owner's member object at hand the same kick is answered
  with the owner message.
\<close>

theorem owner_not_recognised:
  "owner demo_guild_uncached = None \<and> mid demo_owner = owner_id demo_guild_uncached
   \<and> iguild demo_admin_uncached_i = Some demo_guild_uncached
   \<and> iuser demo_admin_uncached_i = Member demo_admin
   \<and> raised_exn (kick demo_env demo_admin_uncached_i demo_owner ''spam'' demo_world) = None
   \<and> calls (final_world (kick demo_env demo_admin_uncached_i demo_owner ''spam'' demo_world)) =
        [KickCall 1 ''spam | Kicked by admin (3)'']
   \<and> action_log (final_world (kick demo_env demo_admin_uncached_i demo_owner ''spam'' demo_world)) =
        [\<lparr>log_guild = 100, log_name = ''kick'', log_target = 1, log_moderator = 3,
          log_reason = Some ''spam''\<rparr>]
   \<and> calls (final_world (ban demo_env demo_admin_uncached_i demo_owner ''spam'' demo_world)) =
        [BanCall 1 ''spam | Banned by admin (3)'']
   \<and> action_log (final_world (ban demo_env demo_admin_uncached_i demo_owner ''spam'' demo_world)) =
        [\<lparr>log_guild = 100, log_name = ''ban'', log_target = 1, log_moderator = 3,
          log_reason = Some ''spam''\<rparr>]
   \<and> kick demo_env demo_mod_uncached_i demo_owner ''spam'' demo_world =
        reply_error (T ''You cannot kick someone with a higher or equal role.'') demo_world
   \<and> kick demo_env demo_admin_i demo_owner ''spam'' demo_world =
        reply_error (T ''You cannot kick the server owner.'') demo_world"
  by code_simp

section \<open>warn: the threshold\<close>


lemma moderation_calls_followup_send: "moderation_calls (followup_send c e eph w) = moderation_calls w"
  by (simp add: moderation_calls_def followup_send_def)

lemma lower_timeout: "py_lower ''timeout'' = ''timeout''"
  by (simp add: py_lower_def lower_char_def)

lemma auto_timeout_calls:
  assumes "config b = Some (PDict cfg)" "map_of cfg ''moderation'' = Some (PDict m)"
    "map_of m ''warn_threshold'' = Some (PInt t)" "0 < t"
    "map_of m ''warn_threshold_action'' = Some (PStr ''timeout'')"
    "map_of m ''warn_threshold_timeout_duration'' = Some (PInt d)"
    "- 999999999 \<le> d div 1440" "d div 1440 \<le> 999999999"
  shows "moderation_calls (final_world (warn_auto_action b env member c w)) =
           moderation_calls w @
             (if c \<ge> t then [TimeoutCall (mid member) (Some d) (''Reached '' @ str_int t @ '' warnings'')]
              else [])"
proof -
  from assms(2) have ne: "cfg \<noteq> []" by auto
  have mc: "moderation_cfg b = Inr m"
    using assms(1,2) ne by (simp add: moderation_cfg_def)
  have th: "cfg_int m ''warn_threshold'' 0 = t"
    using assms(3) by (simp add: cfg_int_def dict_get_def)
  have act: "py_lower (py_str (dict_get m ''warn_threshold_action'' (PStr ''none''))) = ''timeout''"
    using assms(5) by (simp add: dict_get_def lower_timeout)
  have dur: "cfg_timeout_duration b = Inr (PInt d)"
    using assms(1,2,6) by (simp add: cfg_timeout_duration_def)
  have td: "timedelta_minutes_int d = Inr d"
    using assms(7,8) by (simp add: timedelta_minutes_int_def)
  have "moderation_calls (final_world (warn_auto_action b env member c w)) =
           moderation_calls w @ (if c \<ge> t then [TimeoutCall (mid member) (Some d) (reached t)] else [])"
  proof (cases "c \<ge> t")
    case False
    then show ?thesis using assms(4)
      by (simp add: warn_auto_action_def mc th act Let_def)
  next
    case True
    have "moderation_calls (final_world
            (catch_forbidden (T ''I don't have permission to timeout this member.'')
              (and_then (api (TimeoutCall (mid member) (Some d) (reached t)) (timeout_result env) w)
                 (\<lambda>u. announce member ''timed out'' t)))) =
          moderation_calls w @ [TimeoutCall (mid member) (Some d) (reached t)]"
      by (cases "timeout_result env")
         (simp_all add: api_def Let_def announce_def catch_forbidden_def moderation_calls_followup_send,
          simp_all add: moderation_calls_def)
    with True show ?thesis using assms(4)
      by (simp add: warn_auto_action_def mc th act dur td Let_def)
  qed
  then show ?thesis by (simp add: reached_def)
qed

lemma count_after_warn_writes:
  "get_warning_count g m (log_action g a m moderator r (add_warning g m moderator reason stamp w)) =
     get_warning_count g m w + 1"
  by (simp add: get_warning_count_def get_warnings_def log_action_def add_warning_def)

lemma store_same_count:
  "store_same w w' \<Longrightarrow> get_warning_count g m w' = get_warning_count g m w"
  by (simp add: store_same_def get_warning_count_def get_warnings_def)

lemma post_modlog_done:
  assumes "settings_result env (gid g) = Inr st"
  shows "\<exists>w'. post_modlog env g e w = Done () w' \<and> moderation_calls w' = moderation_calls w"
  using assms
  by (simp add: post_modlog_def swallow_def api_def Let_def moderation_calls_def
      split: option.splits)

lemma moderation_calls_swallow_dm:
  "moderation_calls (swallow (api (DirectMessage n e) r w)) = moderation_calls w"
  by (simp add: swallow_def api_def Let_def moderation_calls_def split: option.splits)

lemma warn_threshold_step:
  assumes "iguild i = Some g" "iuser i = Member author"
    "\<not> (top_role member \<ge> top_role author \<and> mid author \<noteq> owner_id g)"
    "settings_result env (gid g) = Inr st"
    "config b = Some (PDict cfg)" "map_of cfg ''moderation'' = Some (PDict m)"
    "map_of m ''warn_threshold'' = Some (PInt t)" "0 < t"
    "map_of m ''warn_threshold_action'' = Some (PStr ''timeout'')"
    "map_of m ''warn_threshold_timeout_duration'' = Some (PInt d)"
    "- 999999999 \<le> d div 1440" "d div 1440 \<le> 999999999"
  shows "get_warning_count (gid g) (mid member) (final_world (warn b env i member reason w)) =
           get_warning_count (gid g) (mid member) w + 1"
    and "moderation_calls (final_world (warn b env i member reason w)) =
           moderation_calls w @
             (if get_warning_count (gid g) (mid member) w + 1 \<ge> t
              then [TimeoutCall (mid member) (Some d) (''Reached '' @ str_int t @ '' warnings'')]
              else [])"
proof -
  show "get_warning_count (gid g) (mid member) (final_world (warn b env i member reason w)) =
           get_warning_count (gid g) (mid member) w + 1"
    using store_same_count[OF warn_proceeds_store[OF assms(1,2,3), of reason env w b]]
    by (simp add: count_after_warn_writes)
next
  from assms(3) have f: "(top_role author \<le> top_role member \<and> mid author \<noteq> owner_id g) = False"
    by simp
  let ?w3 = "log_action (gid g) ''warn'' (mid member) (mid author) (Some reason)
              (add_warning (gid g) (mid member) (mid author) reason (now env) (defer_reply env w))"
  let ?c = "get_warning_count (gid g) (mid member) ?w3"
  let ?e = "warned_embed member author reason ?c"
  let ?w4 = "respond None (Some ?e) False False ?w3"
  have c: "?c = get_warning_count (gid g) (mid member) w + 1"
    by (simp add: get_warning_count_def get_warnings_def log_action_def add_warning_def
        defer_reply_def split: option.splits)
  have m4: "moderation_calls ?w4 = moderation_calls w"
    by (simp add: moderation_calls_def respond_def log_action_def add_warning_def calls_defer_reply)
  from post_modlog_done[OF assms(4), of ?e ?w4] obtain w5 where
    p: "post_modlog env g ?e ?w4 = Done () w5" and m5: "moderation_calls w5 = moderation_calls ?w4"
    by blast
  let ?w6 = "swallow (api (DirectMessage (mid member) (dm_embed g reason ?c)) (dm_result env) w5)"
  have eq: "warn b env i member reason w = warn_auto_action b env member ?c ?w6"
    using assms(1,2) by (simp add: warn_def f Let_def p)
  have m6: "moderation_calls ?w6 = moderation_calls w"
    by (simp only: moderation_calls_swallow_dm m5 m4)
  have "moderation_calls (final_world (warn b env i member reason w)) =
           moderation_calls w @
             (if ?c \<ge> t
              then [TimeoutCall (mid member) (Some d) (''Reached '' @ str_int t @ '' warnings'')]
              else [])"
    by (simp only: eq auto_timeout_calls[OF assms(5-12), of env member ?c ?w6] m6)
  then show "moderation_calls (final_world (warn b env i member reason w)) =
           moderation_calls w @
             (if get_warning_count (gid g) (mid member) w + 1 \<ge> t
              then [TimeoutCall (mid member) (Some d) (''Reached '' @ str_int t @ '' warnings'')]
              else [])"
    by (simp only: c)
qed

text \<open>
  C3. A warn that passes its guards and whose modlog settings read returns, under a
  configuration with \<open>warn_threshold = t > 0\<close>, \<open>warn_threshold_action = "timeout"\<close> and
  a duration of \<open>d\<close> minutes that \<open>timedelta\<close> can represent: the member's updated
  warning count is the previous one plus one; if it is at least \<open>t\<close>, exactly one
  moderation action is issued, a timeout of \<open>d\<close> minutes with reason
  \<open>Reached t warnings\<close>, and if it is below \<open>t\<close>, none. The comparison being \<open>\<ge>\<close>, the
  next warn of a member at or above the threshold issues the timeout again.
\<close>

theorem warn_threshold_timeout:
  assumes "iguild i = Some g" and "iuser i = Member author"
    and "\<not> (top_role member \<ge> top_role author \<and> mid author \<noteq> owner_id g)"
    and "settings_result env (gid g) = Inr st"
    and "config b = Some (PDict cfg)" and "map_of cfg ''moderation'' = Some (PDict m)"
    and "map_of m ''warn_threshold'' = Some (PInt t)" and "0 < t"
    and "map_of m ''warn_threshold_action'' = Some (PStr ''timeout'')"
    and "map_of m ''warn_threshold_timeout_duration'' = Some (PInt d)"
    and "- 999999999 \<le> d div 1440" and "d div 1440 \<le> 999999999"
  shows "get_warning_count (gid g) (mid member) (final_world (warn b env i member reason w)) =
           get_warning_count (gid g) (mid member) w + 1
       \<and> moderation_calls (final_world (warn b env i member reason w)) =
           moderation_calls w @
             (if get_warning_count (gid g) (mid member) (final_world (warn b env i member reason w)) \<ge> t
              then [TimeoutCall (mid member) (Some d) (''Reached '' @ str_int t @ '' warnings'')]
              else [])
       \<and> (get_warning_count (gid g) (mid member) (final_world (warn b env i member reason w)) \<ge> t \<longrightarrow>
            moderation_calls (final_world (warn b env i member reason'
                                 (final_world (warn b env i member reason w)))) =
              moderation_calls (final_world (warn b env i member reason w)) @
                [TimeoutCall (mid member) (Some d) (''Reached '' @ str_int t @ '' warnings'')])"
proof -
  note a = warn_threshold_step[OF assms, of reason w]
  note b = warn_threshold_step[OF assms, of reason' "final_world (warn b env i member reason w)"]
  show ?thesis using a b by simp
qed

lemma str_int_3: "str_int 3 = ''3''"
  by code_simp

lemma demo_bot_config:
  "config demo_bot = Some (PDict [(''moderation'',
          PDict [(''warn_threshold'', PInt 3), (''warn_threshold_action'', PStr ''timeout''),
                 (''warn_threshold_timeout_duration'', PInt 60)])])"
  by (simp add: demo_bot_def)

theorem warn_threshold_timeout_witness:
  "moderation_calls (final_world (warn demo_bot demo_env demo_i demo_target ''spam'' demo_world_one)) = []
   \<and> moderation_calls (final_world (warn demo_bot demo_env demo_i demo_target ''spam'' demo_world_two)) =
        [TimeoutCall 7 (Some 60) ''Reached 3 warnings'']
   \<and> moderation_calls (final_world (warn demo_bot demo_env demo_i demo_target ''again''
        (final_world (warn demo_bot demo_env demo_i demo_target ''spam'' demo_world_two)))) =
        [TimeoutCall 7 (Some 60) ''Reached 3 warnings'', TimeoutCall 7 (Some 60) ''Reached 3 warnings'']"
proof -
  have g: "iguild demo_i = Some demo_guild" and u: "iuser demo_i = Member demo_mod"
    by (simp_all add: demo_i_def)
  have h: "\<not> (top_role demo_target \<ge> top_role demo_mod \<and> mid demo_mod \<noteq> owner_id demo_guild)"
    using demo_target_passes by blast
  have s: "settings_result demo_env (gid demo_guild) = Inr \<lparr>log_channel = None\<rparr>"
    by (simp add: demo_env_def)
  have c1: "get_warning_count (gid demo_guild) (mid demo_target) demo_world_one = 1"
    by (simp add: get_warning_count_def get_warnings_def demo_world_one_def demo_world_def
        demo_row_def demo_guild_def demo_target_def)
  have c2: "get_warning_count (gid demo_guild) (mid demo_target) demo_world_two = 2"
    by (simp add: get_warning_count_def get_warnings_def demo_world_two_def demo_world_def
        demo_row_def demo_guild_def demo_target_def)
  have e: "moderation_calls demo_world_one = []" "moderation_calls demo_world_two = []"
    by (simp_all add: moderation_calls_def demo_world_one_def demo_world_two_def demo_world_def)
  note t = warn_threshold_timeout[OF g u h s demo_bot_config, where t = 3 and d = 60 and reason = "''spam''"]
  have one: "moderation_calls (final_world (warn demo_bot demo_env demo_i demo_target ''spam'' demo_world_one)) = []"
    using t[where w = demo_world_one] c1 e by simp
  have two: "moderation_calls (final_world (warn demo_bot demo_env demo_i demo_target ''spam'' demo_world_two)) =
        [TimeoutCall 7 (Some 60) ''Reached 3 warnings'']
   \<and> moderation_calls (final_world (warn demo_bot demo_env demo_i demo_target ''again''
        (final_world (warn demo_bot demo_env demo_i demo_target ''spam'' demo_world_two)))) =
        [TimeoutCall 7 (Some 60) ''Reached 3 warnings'', TimeoutCall 7 (Some 60) ''Reached 3 warnings'']"
    using t[where w = demo_world_two and reason' = "''again''"] c2 e
    by (simp add: str_int_3 demo_target_def)
  show ?thesis using one two by blast
qed


section \<open>warn: configuration access\<close>

text \<open>
  C5, at the input where the code departs from it. With \<open>warn_threshold = 1\<close> and
  \<open>warn_threshold_action = "timeout"\<close> configured and no
  \<open>warn_threshold_timeout_duration\<close>, a warn that passes its guards records the warning,
  replies, and then leaves the command with \<open>KeyError\<close>: the duration is read by plain
  indexing, outside any \<open>try\<close>. No timeout is issued and the cog's error handler adds an
  error reply. A duration that is not a number leaves the command with \<open>TypeError\<close>.
\<close>

theorem warn_missing_duration:
  "raised_exn (warn demo_bot_no_duration demo_env demo_i demo_target ''spam'' demo_world) =
     Some (KeyError ''warn_threshold_timeout_duration'')
   \<and> get_warning_count 100 7
        (final_world (warn demo_bot_no_duration demo_env demo_i demo_target ''spam'' demo_world)) = 1
   \<and> moderation_calls
        (final_world (warn demo_bot_no_duration demo_env demo_i demo_target ''spam'' demo_world)) = []
   \<and> replies (invoke demo_bot_no_duration demo_env demo_i (Warn demo_target ''spam'') demo_world) =
       [\<lparr>via = Followup, ephemeral = False, content = None,
         reply_embed = Some (warned_embed demo_target demo_mod ''spam'' 1), view = False\<rparr>,
        \<lparr>via = Followup, ephemeral = True,
         content = Some (G Cross (ErrorText (KeyError ''warn_threshold_timeout_duration''))),
         reply_embed = None, view = False\<rparr>]
   \<and> raised_exn (warn demo_bot_bad_duration demo_env demo_i demo_target ''spam'' demo_world) =
       Some TypeError"
  by code_simp

section \<open>The modlog step\<close>

text \<open>
  C6, at the input where the code departs from it. When the settings read of the modlog
  step raises, kick has already kicked, logged and replied in public; the exception then
  leaves the command and the cog's error handler adds an ephemeral error reply. In warn
  it also cuts off what follows the modlog step: neither the direct message nor the
  threshold action is attempted, which the same invocation does when the read returns.
  A channel send that is refused is swallowed: kick ends normally with its one reply.
\<close>

theorem modlog_settings_failure:
  "raised_exn (kick demo_env_store_fails demo_i demo_target ''spam'' demo_world) = Some StoreError
   \<and> moderation_calls (final_world (kick demo_env_store_fails demo_i demo_target ''spam'' demo_world)) =
        [KickCall 7 ''spam | Kicked by mod (2)'']
   \<and> map (\<lambda>r. (ephemeral r, content r))
        (replies (invoke demo_bot demo_env_store_fails demo_i (Kick demo_target ''spam'') demo_world)) =
        [(False, None), (True, Some (G Cross (ErrorText StoreError)))]
   \<and> raised_exn (warn demo_bot demo_env_store_fails demo_i demo_target ''spam'' demo_world_two) =
        Some StoreError
   \<and> calls (final_world (warn demo_bot demo_env_store_fails demo_i demo_target ''spam'' demo_world_two)) = []
   \<and> calls (final_world (warn demo_bot demo_env demo_i demo_target ''spam'' demo_world_two)) =
        [DirectMessage 7 (dm_embed demo_guild ''spam'' 3), TimeoutCall 7 (Some 60) ''Reached 3 warnings'']
   \<and> raised_exn (kick demo_env_send_fails demo_i demo_target ''spam'' demo_world) = None
   \<and> map (\<lambda>r. (ephemeral r, content r))
        (replies (invoke demo_bot demo_env_send_fails demo_i (Kick demo_target ''spam'') demo_world)) =
        [(False, None)]"
  by code_simp

section \<open>unwarn: what the store can delete\<close>


lemma remove_first_count:
  "filter P xs \<noteq> [] \<Longrightarrow> length (filter P (remove_first P xs)) + 1 = length (filter P xs)"
  by (induction xs) auto

lemma get_warnings_defer_reply: "get_warnings g m (defer_reply env w) = get_warnings g m w"
  by (simp add: get_warnings_def defer_reply_def split: option.splits)

lemma warning_rows_defer_reply: "warning_rows (defer_reply env w) = warning_rows w"
  by (simp add: defer_reply_def split: option.splits)

lemma count_remove_warning:
  assumes "get_warnings g m w \<noteq> []"
  shows "get_warning_count g m (remove_warning g m w) = get_warning_count g m w - 1"
  using remove_first_count[of "\<lambda>r. w_guild r = g \<and> w_member r = m" "warning_rows w"] assms
  by (simp add: get_warning_count_def get_warnings_def remove_warning_def)

lemma unwarn_coarse:
  assumes "iguild i = Some g" "get_warnings (gid g) (mid member) w \<noteq> []"
    "\<not> has_delete_warning b" "has_remove_warning b"
  shows "unwarn b env i member w =
     Done () (respond None
       (Some (create_success_embed
          (T (''Removed 1 warning from '' @ mention (mid member) @ ''. Now: '' @
              str_int (get_warning_count (gid g) (mid member) w - 1) @ ''.''))))
       True False
       (log_action (gid g) ''unwarn'' (mid member) (invoker_id (iuser i)) (Some ''Removed latest warning'')
          (remove_warning (gid g) (mid member) (defer_reply env w))))"
proof -
  from assms(2) obtain latest rest where
    l: "get_warnings (gid g) (mid member) (defer_reply env w) = latest # rest"
    by (cases "get_warnings (gid g) (mid member) w") (simp_all add: get_warnings_defer_reply)
  have c: "get_warning_count (gid g) (mid member) (remove_warning (gid g) (mid member) (defer_reply env w))
        = get_warning_count (gid g) (mid member) w - 1"
    using count_remove_warning[of "gid g" "mid member" "defer_reply env w"] assms(2)
    by (simp add: get_warnings_defer_reply get_warning_count_def)
  show ?thesis
    using assms(1,3,4) by (simp add: unwarn_def l Let_def c)
qed

lemma unwarn_unsupported:
  assumes "iguild i = Some g" "get_warnings (gid g) (mid member) w \<noteq> []"
    "\<not> has_delete_warning b" "\<not> has_remove_warning b"
  shows "unwarn b env i member w =
     reply_error (T ''Unwarn is not supported by your DB backend. Use /clearwarnings instead.'')
       (defer_reply env w)"
proof -
  from assms(2) obtain latest rest where
    l: "get_warnings (gid g) (mid member) (defer_reply env w) = latest # rest"
    by (cases "get_warnings (gid g) (mid member) w") (simp_all add: get_warnings_defer_reply)
  show ?thesis
    using assms(1,3,4) by (simp add: unwarn_def l Let_def)
qed

text \<open>
  C7. In a server, against a member with at least one warning, with a store that has no
  precise deletion. If the store has the coarse removal, unwarn ends normally, the
  member's warning count is one less, one \<open>unwarn\<close> action-log entry is written and the
  reply is the success embed with the new count. If the store has neither, unwarn
  answers with the not-supported error, writes no action-log entry, asks nothing of the
  platform, and the warning count is as before.
\<close>

theorem unwarn_capabilities:
  assumes "iguild i = Some g" and "get_warnings (gid g) (mid member) w \<noteq> []"
    and "\<not> has_delete_warning b"
  shows "(has_remove_warning b \<longrightarrow>
            raised_exn (unwarn b env i member w) = None
          \<and> get_warning_count (gid g) (mid member) (final_world (unwarn b env i member w)) =
              get_warning_count (gid g) (mid member) w - 1
          \<and> action_log (final_world (unwarn b env i member w)) =
              action_log w @ [\<lparr>log_guild = gid g, log_name = ''unwarn'', log_target = mid member,
                                log_moderator = invoker_id (iuser i),
                                log_reason = Some ''Removed latest warning''\<rparr>]
          \<and> reply_embed (last (replies (final_world (unwarn b env i member w)))) =
              Some (create_success_embed
                (T (''Removed 1 warning from '' @ mention (mid member) @ ''. Now: '' @
                    str_int (get_warning_count (gid g) (mid member) w - 1) @ ''.''))))
       \<and> (\<not> has_remove_warning b \<longrightarrow>
            unwarn b env i member w =
              reply_error (T ''Unwarn is not supported by your DB backend. Use /clearwarnings instead.'')
                (defer_reply env w)
          \<and> untouched w (final_world (unwarn b env i member w))
          \<and> get_warning_count (gid g) (mid member) (final_world (unwarn b env i member w)) =
              get_warning_count (gid g) (mid member) w)"
proof (intro conjI impI)
  assume r: "has_remove_warning b"
  note u = unwarn_coarse[OF assms r, of env]
  show "raised_exn (unwarn b env i member w) = None" by (simp add: u)
  show "get_warning_count (gid g) (mid member) (final_world (unwarn b env i member w)) =
              get_warning_count (gid g) (mid member) w - 1"
    using count_remove_warning[of "gid g" "mid member" "defer_reply env w"] assms(2)
    by (simp add: u get_warnings_defer_reply get_warning_count_def get_warnings_def respond_def
        log_action_def warning_rows_defer_reply)
  show "action_log (final_world (unwarn b env i member w)) =
              action_log w @ [\<lparr>log_guild = gid g, log_name = ''unwarn'', log_target = mid member,
                                log_moderator = invoker_id (iuser i),
                                log_reason = Some ''Removed latest warning''\<rparr>]"
    by (simp add: u respond_def log_action_def remove_warning_def defer_reply_def split: option.splits)
  show "reply_embed (last (replies (final_world (unwarn b env i member w)))) =
              Some (create_success_embed
                (T (''Removed 1 warning from '' @ mention (mid member) @ ''. Now: '' @
                    str_int (get_warning_count (gid g) (mid member) w - 1) @ ''.'')))"
    by (simp add: u respond_def)
next
  assume r: "\<not> has_remove_warning b"
  note u = unwarn_unsupported[OF assms r, of env]
  show "unwarn b env i member w =
              reply_error (T ''Unwarn is not supported by your DB backend. Use /clearwarnings instead.'')
                (defer_reply env w)" by (rule u)
  show "untouched w (final_world (unwarn b env i member w))"
    by (simp add: u untouched_def reply_error_def respond_def defer_reply_def split: option.splits)
  show "get_warning_count (gid g) (mid member) (final_world (unwarn b env i member w)) =
              get_warning_count (gid g) (mid member) w"
    by (simp add: u get_warning_count_def get_warnings_def reply_error_def respond_def defer_reply_def
        split: option.splits)
qed

theorem unwarn_capabilities_witness:
  "iguild demo_i = Some demo_guild
   \<and> get_warnings (gid demo_guild) (mid demo_target) demo_world_two \<noteq> []
   \<and> \<not> has_delete_warning demo_bot \<and> has_remove_warning demo_bot
   \<and> \<not> has_delete_warning demo_bot_bare \<and> \<not> has_remove_warning demo_bot_bare
   \<and> get_warning_count 100 7 demo_world_two = 2
   \<and> get_warning_count 100 7 (final_world (unwarn demo_bot demo_env demo_i demo_target demo_world_two)) = 1
   \<and> get_warning_count 100 7 (final_world (unwarn demo_bot_bare demo_env demo_i demo_target demo_world_two)) = 2
   \<and> action_log (final_world (unwarn demo_bot_bare demo_env demo_i demo_target demo_world_two)) = []"
proof -
  have g: "iguild demo_i = Some demo_guild" by (simp add: demo_i_def)
  have n: "get_warnings (gid demo_guild) (mid demo_target) demo_world_two \<noteq> []"
    by (simp add: get_warnings_def demo_world_two_def demo_world_def demo_row_def demo_guild_def
        demo_target_def)
  have c: "get_warning_count (gid demo_guild) (mid demo_target) demo_world_two = 2"
    by (simp add: get_warning_count_def get_warnings_def demo_world_two_def demo_world_def
        demo_row_def demo_guild_def demo_target_def)
  have k: "gid demo_guild = 100" "mid demo_target = 7"
    by (simp_all add: demo_guild_def demo_target_def)
  have d: "\<not> has_delete_warning demo_bot" "has_remove_warning demo_bot"
    "\<not> has_delete_warning demo_bot_bare" "\<not> has_remove_warning demo_bot_bare"
    by (simp_all add: demo_bot_def demo_bot_bare_def)
  have e: "action_log demo_world_two = []"
    by (simp add: demo_world_two_def demo_world_def)
  from unwarn_capabilities[OF g n d(1), of demo_env] d(2)
  have a: "get_warning_count (gid demo_guild) (mid demo_target)
             (final_world (unwarn demo_bot demo_env demo_i demo_target demo_world_two)) = 1"
    by (simp add: c)
  from unwarn_capabilities[OF g n d(3), of demo_env] d(4)
  have b: "untouched demo_world_two
             (final_world (unwarn demo_bot_bare demo_env demo_i demo_target demo_world_two))"
    and b': "get_warning_count (gid demo_guild) (mid demo_target)
             (final_world (unwarn demo_bot_bare demo_env demo_i demo_target demo_world_two)) =
           get_warning_count (gid demo_guild) (mid demo_target) demo_world_two"
    by blast+
  from b e have l: "action_log
      (final_world (unwarn demo_bot_bare demo_env demo_i demo_target demo_world_two)) = []"
    by (simp add: untouched_def)
  show ?thesis
    using g n d c a b' l by (simp add: k)
qed

section \<open>The guild-context guard\<close>


lemma run_outside_guild:
  assumes "iguild i = None" "checks_guild c"
  shows "run b env i c w = reply_context_error w"
  using assms
  by (cases c)
     (simp_all add: kick_def ban_def unban_def warn_def warnings_def clearwarnings_def timeout_def
        untimeout_def unwarn_def purge_def)

lemma mute_unmute_raise:
  "run b env i (Mute m d r) w = Raised TypeError w"
  "run b env i (Unmute m) w = Raised TypeError w"
  by (simp_all add: mute_def unmute_def)

lemma run_not_member:
  assumes "iuser i = User n nm" "checks_member c"
  shows "run b env i c w = reply_context_error w"
  using assms
  by (cases c; cases "iguild i")
     (simp_all add: kick_def ban_def unban_def warn_def timeout_def untimeout_def)

lemma replies_context_error:
  "replies (final_world (reply_context_error w)) =
     replies w @ [\<lparr>via = (if is_done w then Followup else Initial), ephemeral = True,
                    content = Some context_error, reply_embed = None, view = False\<rparr>]"
  by (simp add: reply_context_error_def respond_def)

text \<open>
  C8, as the code has it. Every command whose handler tests the server context, that
  is, every command except features, mute and unmute, when invoked outside a server
  answers with the one ephemeral server-only message and asks nothing of the platform
  and writes nothing to the store. kick, ban, unban, warn, timeout and untimeout do the
  same when the invoker is not a server member. warnings, clearwarnings, unwarn and purge
  test the server only, and features tests nothing.
\<close>

theorem guild_context_guard:
  "(iguild i = None \<and> checks_guild c \<longrightarrow> run b env i c w = reply_context_error w)
   \<and> (iuser i = User n nm \<and> checks_member c \<longrightarrow> run b env i c w = reply_context_error w)
   \<and> untouched w (final_world (reply_context_error w))
   \<and> replies (final_world (reply_context_error w)) =
        replies w @ [\<lparr>via = (if is_done w then Followup else Initial), ephemeral = True,
                       content = Some context_error, reply_embed = None, view = False\<rparr>]"
  using run_outside_guild[of i c b env w] run_not_member[of i n nm c b env w]
    untouched_reply_context_error[of w] replies_context_error[of w]
  by blast

theorem guild_context_guard_witness:
  "iguild demo_dm_i = None \<and> checks_guild (Purge 5)
   \<and> run demo_bot demo_env demo_dm_i (Purge 5) demo_world = reply_context_error demo_world
   \<and> iuser demo_ghost_i = User 9 ''ghost'' \<and> checks_member (Kick demo_target ''spam'')
   \<and> run demo_bot demo_env demo_ghost_i (Kick demo_target ''spam'') demo_world =
        reply_context_error demo_world"
proof -
  have a: "iguild demo_dm_i = None \<and> checks_guild (Purge 5)"
    by (simp add: demo_dm_i_def)
  have b: "iuser demo_ghost_i = User 9 ''ghost'' \<and> checks_member (Kick demo_target ''spam'')"
    by (simp add: demo_ghost_i_def)
  show ?thesis
    using a b
      guild_context_guard[of demo_dm_i "Purge 5" demo_bot demo_env demo_world 9 "''ghost''"]
      guild_context_guard[of demo_ghost_i "Kick demo_target ''spam''" demo_bot demo_env demo_world 9 "''ghost''"]
    by blast
qed

text \<open>
  C8 as stated fails: invoked in a server by a user who is not resolved as a member,
  purge deletes messages and writes an action-log entry and unwarn removes a warning;
  invoked outside a server, features does not answer with the server-only message.
\<close>

theorem guild_context_guard_counterexample:
  "iguild demo_ghost_i = Some demo_guild \<and> iuser demo_ghost_i = User 9 ''ghost''
   \<and> calls (final_world (run demo_bot demo_env demo_ghost_i (Purge 5) demo_world)) = [PurgeCall 5]
   \<and> action_log (final_world (run demo_bot demo_env demo_ghost_i (Purge 5) demo_world)) =
        [\<lparr>log_guild = 100, log_name = ''purge'', log_target = 9, log_moderator = 9,
          log_reason = Some ''Purged 5 messages''\<rparr>]
   \<and> get_warning_count 100 7
        (final_world (run demo_bot demo_env demo_ghost_i (Unwarn demo_target) demo_world_two)) = 1
   \<and> iguild demo_dm_i = None
   \<and> run demo_bot demo_env demo_dm_i Features demo_world \<noteq> reply_context_error demo_world"
  by code_simp

end
